theory Spec2Isabelle
  imports Main
begin

section \<open>Data model\<close>

text \<open>
  The backend types of \<^verbatim>\<open>class DBType(Enum)\<close> and their string values, which the
  dispatcher compares with \<^verbatim>\<open>self.connDetails['rdbms']\<close>.
\<close>

datatype DBType = ORACLE | SQL_SERVER | POSTGRESQL | MYSQL

fun DBType_value :: "DBType \<Rightarrow> string" where
  "DBType_value ORACLE = ''oracle''"
| "DBType_value SQL_SERVER = ''sqlserver''"
| "DBType_value POSTGRESQL = ''postgresql''"
| "DBType_value MYSQL = ''mysql''"

text \<open>
  Exceptions. The four driver libraries follow the Python DB-API: \<^verbatim>\<open>OperationalError\<close>
  and \<^verbatim>\<open>ProgrammingError\<close> are subclasses of \<^verbatim>\<open>DatabaseError\<close>, while
  \<^verbatim>\<open>InterfaceError\<close> is not. An exception carries its class, its message and the
  exception that was being handled when it was raised (Python's implicit
  \<^verbatim>\<open>__context__\<close>).
\<close>

datatype exn_class =
  DatabaseError | OperationalError | ProgrammingError | InterfaceError
  | AttributeError | IndexError | ValueError | OtherError

datatype exn = Exn (cls: exn_class) (msg: string) (ctx: "exn option")

text \<open>\<^verbatim>\<open>except <driver>.DatabaseError\<close> catches the class and its subclasses.\<close>

fun isDatabaseError :: "exn_class \<Rightarrow> bool" where
  "isDatabaseError DatabaseError = True"
| "isDatabaseError OperationalError = True"
| "isDatabaseError ProgrammingError = True"
| "isDatabaseError InterfaceError = False"
| "isDatabaseError AttributeError = False"
| "isDatabaseError IndexError = False"
| "isDatabaseError ValueError = False"
| "isDatabaseError OtherError = False"

text \<open>
  Column values, and a normalized row: a Python \<^verbatim>\<open>dict\<close> from column name to value,
  kept as an association list in insertion order. \<open>dict_set\<close> is \<^verbatim>\<open>d[k] = v\<close> (an
  existing key keeps its position and takes the new value) and \<open>py_dict\<close> is
  \<^verbatim>\<open>dict(pairs)\<close>.
\<close>

datatype pyval = IntV int | StrV string | NoneV

type_synonym row = "(string \<times> pyval) list"

fun dict_set :: "row \<Rightarrow> string \<Rightarrow> pyval \<Rightarrow> row" where
  "dict_set [] k v = [(k, v)]"
| "dict_set ((k', v') # d) k v =
     (if k' = k then (k, v) # d else (k', v') # dict_set d k v)"

fun py_dict_from :: "row \<Rightarrow> (string \<times> pyval) list \<Rightarrow> row" where
  "py_dict_from d [] = d"
| "py_dict_from d ((k, v) # kvs) = py_dict_from (dict_set d k v) kvs"

definition py_dict :: "(string \<times> pyval) list \<Rightarrow> row" where
  "py_dict kvs = py_dict_from [] kvs"

definition keys :: "row \<Rightarrow> string list" where
  "keys r = map fst r"

definition vals :: "row \<Rightarrow> pyval list" where
  "vals r = map snd r"

text \<open>
  What \<^verbatim>\<open>runSql\<close> returns and stores in \<^verbatim>\<open>lastResult\<close>: the list of rows, or with
  \<^verbatim>\<open>one=True\<close> the single row \<^verbatim>\<open>results[0]\<close>.
\<close>

datatype result = Rows "row list" | Row row

section \<open>The driver libraries\<close>

text \<open>
  The native drivers (oracledb, pymssql, psycopg2, MySQLdb) are outside the repository.
  A driver is a parameter: a deterministic machine over a state \<open>'w\<close> of its own (the
  servers, the sockets, the native connection and cursor objects), with one operation for
  each driver call the dispatcher makes. Connection and cursor objects are handles
  (numbers) into that state. A call may raise or return, and changes the driver state
  either way; attribute reads and the Oracle health probe only read it.

  \<^item> \<open>db_connect\<close>: the driver's connect call of the backend, together with the evaluation
    of its arguments (descriptor fields, password decryption);
  \<^item> \<open>db_is_healthy\<close>: \<^verbatim>\<open>connection.is_healthy()\<close> (Oracle);
  \<^item> \<open>db_connected\<close>: \<^verbatim>\<open>connection._conn.connected\<close> (SQL Server);
  \<^item> \<open>db_closed\<close>: \<^verbatim>\<open>connection.closed\<close> (PostgreSQL);
  \<^item> \<open>db_open\<close>: \<^verbatim>\<open>connection.open\<close> (MySQL);
  \<^item> \<open>db_close\<close>, \<open>db_commit\<close>, \<open>db_cursor\<close>: the connection's methods;
  \<^item> \<open>db_execute\<close>: \<^verbatim>\<open>cur.execute(sql)\<close> and its return value;
  \<^item> \<open>db_description\<close>: the column names \<^verbatim>\<open>[col[0] for col in cur.description]\<close>, or
    \<open>None\<close> when \<^verbatim>\<open>cur.description is None\<close>;
  \<^item> \<open>db_rowcount\<close>, \<open>db_statusmessage\<close>: the cursor's attributes;
  \<^item> \<open>db_fetchall\<close>: \<^verbatim>\<open>cur.fetchall()\<close> of a tuple cursor (Oracle), before the row
    factory is applied;
  \<^item> \<open>db_fetchall_dict\<close>: \<^verbatim>\<open>cur.fetchall()\<close> of a dictionary cursor (SQL Server with
    \<^verbatim>\<open>as_dict=True\<close>, PostgreSQL \<^verbatim>\<open>RealDictCursor\<close>, MySQL \<^verbatim>\<open>DictCursor\<close>);
  \<^item> \<open>db_traceback\<close>: the traceback text of an exception raised in a driver call (the
    frames of the call, which end inside the driver), as \<^verbatim>\<open>logging.exception\<close>
    formats it.
\<close>

record 'w driver =
  db_connect :: "'w \<Rightarrow> (exn + nat) \<times> 'w"
  db_is_healthy :: "nat \<Rightarrow> 'w \<Rightarrow> exn + bool"
  db_connected :: "nat \<Rightarrow> 'w \<Rightarrow> exn + bool"
  db_closed :: "nat \<Rightarrow> 'w \<Rightarrow> int"
  db_open :: "nat \<Rightarrow> 'w \<Rightarrow> int"
  db_close :: "nat \<Rightarrow> 'w \<Rightarrow> (exn + unit) \<times> 'w"
  db_commit :: "nat \<Rightarrow> 'w \<Rightarrow> (exn + unit) \<times> 'w"
  db_cursor :: "nat \<Rightarrow> 'w \<Rightarrow> (exn + nat) \<times> 'w"
  db_execute :: "nat \<Rightarrow> string \<Rightarrow> 'w \<Rightarrow> (exn + int) \<times> 'w"
  db_description :: "nat \<Rightarrow> 'w \<Rightarrow> string list option"
  db_rowcount :: "nat \<Rightarrow> 'w \<Rightarrow> int"
  db_statusmessage :: "nat \<Rightarrow> 'w \<Rightarrow> string"
  db_fetchall :: "nat \<Rightarrow> 'w \<Rightarrow> (exn + pyval list list) \<times> 'w"
  db_fetchall_dict :: "nat \<Rightarrow> 'w \<Rightarrow> (exn + row list) \<times> 'w"
  db_traceback :: "exn \<Rightarrow> string"

text \<open>The driver calls that act on the database, in the order they are made.\<close>

datatype event =
  EvConnect | EvClose nat | EvCommit nat | EvCursor nat
  | EvExecute nat string | EvFetchall nat

section \<open>The dispatcher\<close>

text \<open>
  The attributes of a \<^verbatim>\<open>DBConnect\<close> object that the connection and execution methods
  use (\<open>rdbms\<close> is \<^verbatim>\<open>connDetails['rdbms']\<close>), together with what the methods act on: the
  lines written by \<^verbatim>\<open>logging\<close> and \<^verbatim>\<open>print\<close>, the driver calls made so far and the
  driver's state.
\<close>

record 'w state =
  name :: string
  rdbms :: string
  connection :: "nat option"
  lastResult :: "result option"
  out :: "string list"
  trace :: "event list"
  world :: 'w

text \<open>A method is a function from the state to a raised exception or a value, and the new state.\<close>

definition ret :: "'a \<Rightarrow> 's \<Rightarrow> (exn + 'a) \<times> 's" where
  "ret a s = (Inr a, s)"

definition raise :: "exn_class \<Rightarrow> string \<Rightarrow> 's \<Rightarrow> (exn + 'a) \<times> 's" where
  "raise c m s = (Inl (Exn c m None), s)"

definition and_then ::
  "('s \<Rightarrow> (exn + 'a) \<times> 's) \<Rightarrow> ('a \<Rightarrow> 's \<Rightarrow> (exn + 'b) \<times> 's) \<Rightarrow> 's \<Rightarrow> (exn + 'b) \<times> 's" where
  "and_then m f s = (case m s of (Inl e, s') \<Rightarrow> (Inl e, s') | (Inr a, s') \<Rightarrow> f a s')"

definition logging_error :: "exn \<Rightarrow> 'w state \<Rightarrow> 'w state" where
  "logging_error err s = s\<lparr>out := out s @ [''ERROR:root:'' @ msg err]\<rparr>"

text \<open>
  \<^verbatim>\<open>logging.exception(err)\<close> writes the record of \<^verbatim>\<open>logging.error(err)\<close> with the
  traceback appended on the following lines.
\<close>

definition logging_exception :: "'w driver \<Rightarrow> exn \<Rightarrow> 'w state \<Rightarrow> 'w state" where
  "logging_exception drv err s =
     s\<lparr>out := out s @ [''ERROR:root:'' @ msg err @ [CHR 0x0A] @ db_traceback drv err]\<rparr>"

definition py_print :: "string \<Rightarrow> 'w state \<Rightarrow> 'w state" where
  "py_print line s = s\<lparr>out := out s @ [line]\<rparr>"

text \<open>A driver call: it is recorded, and the driver's state moves on.\<close>

definition call :: "event \<Rightarrow> ('w \<Rightarrow> (exn + 'a) \<times> 'w) \<Rightarrow> 'w state \<Rightarrow> (exn + 'a) \<times> 'w state" where
  "call ev f s = (case f (world s) of (r, w') \<Rightarrow> (r, s\<lparr>trace := trace s @ [ev], world := w'\<rparr>))"

text \<open>
  \<^verbatim>\<open>self.connection.<attr>\<close>: on \<^verbatim>\<open>None\<close> the attribute lookup raises
  \<^verbatim>\<open>AttributeError\<close>.
\<close>

definition the_connection :: "string \<Rightarrow> 'w state \<Rightarrow> (exn + nat) \<times> 'w state" where
  "the_connection attr s =
     (case connection s of
        None \<Rightarrow> raise AttributeError
          ([CHR 0x27] @ ''NoneType'' @ [CHR 0x27] @ '' object has no attribute ''
             @ [CHR 0x27] @ attr @ [CHR 0x27]) s
      | Some h \<Rightarrow> (Inr h, s))"

subsection \<open>status\<close>

definition status :: "'w driver \<Rightarrow> 'w state \<Rightarrow> (exn + bool) \<times> 'w state" where
  "status drv s =
     (case connection s of
        None \<Rightarrow> (Inr False, s)
      | Some h \<Rightarrow>
          if rdbms s = DBType_value ORACLE then
            (case db_is_healthy drv h (world s) of
               Inr healthy \<Rightarrow> (Inr (if healthy then True else False), s)
             | Inl err \<Rightarrow>
                 if isDatabaseError (cls err)
                 then (Inr False,
                       py_print (''Unexpected error connecting to '' @ name s) (logging_error err s))
                 else (Inl err, s))
          else if rdbms s = DBType_value SQL_SERVER then
            (case db_connected drv h (world s) of
               Inr connected \<Rightarrow> (Inr connected, s)
             | Inl err \<Rightarrow> if cls err = InterfaceError then (Inr False, s) else (Inl err, s))
          else if rdbms s = DBType_value POSTGRESQL then
            (if db_closed drv h (world s) \<noteq> 0 then (Inr False, s) else (Inr True, s))
          else if rdbms s = DBType_value MYSQL then
            (if db_open drv h (world s) = 1 then (Inr True, s) else (Inr False, s))
          else (Inr False, s))"

subsection \<open>connect\<close>

text \<open>
  The four helpers \<^verbatim>\<open>_oracleConnection\<close>, \<^verbatim>\<open>_sqlServerConnection\<close>,
  \<^verbatim>\<open>_pgConnection\<close>, \<^verbatim>\<open>_mySqlConnection\<close>: each returns the native connection, or
  logs a \<^verbatim>\<open>DatabaseError\<close>, prints a line and falls off its end, returning \<^verbatim>\<open>None\<close>.
  They differ in the printed line and in the logging call: \<^verbatim>\<open>_oracleConnection\<close> logs
  with \<^verbatim>\<open>logging.error\<close> (line 363), the other three with \<^verbatim>\<open>logging.exception\<close>
  (lines 380, 397 and 417).
\<close>

definition native_connection ::
  "string \<Rightarrow> (exn \<Rightarrow> 'w state \<Rightarrow> 'w state) \<Rightarrow> 'w driver \<Rightarrow> 'w state
     \<Rightarrow> (exn + nat option) \<times> 'w state" where
  "native_connection backend log drv s =
     (case call EvConnect (db_connect drv) s of
        (Inr h, s') \<Rightarrow> (Inr (Some h), s')
      | (Inl err, s') \<Rightarrow>
          if isDatabaseError (cls err)
          then (Inr None,
                py_print (''Could not establish '' @ backend @ '' connection for '' @ name s')
                  (log err s'))
          else (Inl err, s'))"

definition oracleConnection :: "'w driver \<Rightarrow> 'w state \<Rightarrow> (exn + nat option) \<times> 'w state" where
  "oracleConnection drv = native_connection ''Oracle'' logging_error drv"

definition sqlServerConnection :: "'w driver \<Rightarrow> 'w state \<Rightarrow> (exn + nat option) \<times> 'w state" where
  "sqlServerConnection drv = native_connection ''SQL Server'' (logging_exception drv) drv"

definition pgConnection :: "'w driver \<Rightarrow> 'w state \<Rightarrow> (exn + nat option) \<times> 'w state" where
  "pgConnection drv = native_connection ''PostgreSQL'' (logging_exception drv) drv"

definition mySqlConnection :: "'w driver \<Rightarrow> 'w state \<Rightarrow> (exn + nat option) \<times> 'w state" where
  "mySqlConnection drv = native_connection ''MySQL'' (logging_exception drv) drv"

text \<open>
  One branch of \<^verbatim>\<open>connect\<close>: \<^verbatim>\<open>self.connection = helper()\<close> inside
  \<^verbatim>\<open>try ... except DatabaseError\<close>. The assignment happens only when the helper returns.
\<close>

definition assign_connection ::
  "('w state \<Rightarrow> (exn + nat option) \<times> 'w state) \<Rightarrow> 'w state \<Rightarrow> (exn + unit) \<times> 'w state" where
  "assign_connection helper s =
     (case helper s of
        (Inr c, s') \<Rightarrow> (Inr (), s'\<lparr>connection := c\<rparr>)
      | (Inl err, s') \<Rightarrow>
          if isDatabaseError (cls err)
          then (Inr (),
                py_print (''Unexpected error connecting to '' @ name s') (logging_error err s'))
          else (Inl err, s'))"

definition connect :: "'w driver \<Rightarrow> 'w state \<Rightarrow> (exn + unit) \<times> 'w state" where
  "connect drv s =
     (if rdbms s = DBType_value ORACLE then assign_connection (oracleConnection drv) s
      else if rdbms s = DBType_value SQL_SERVER then assign_connection (sqlServerConnection drv) s
      else if rdbms s = DBType_value POSTGRESQL then assign_connection (pgConnection drv) s
      else if rdbms s = DBType_value MYSQL then assign_connection (mySqlConnection drv) s
      else raise ValueError
             (''Unknown database type '' @ rdbms s @ '' - cannot establish a connection!'') s)"

subsection \<open>disconnect\<close>

text \<open>
  One branch of \<^verbatim>\<open>disconnect\<close>: \<^verbatim>\<open>self.connection.close()\<close> inside
  \<^verbatim>\<open>try ... except DatabaseError\<close>; the four branches are the same text.
\<close>

definition close_connection :: "'w driver \<Rightarrow> 'w state \<Rightarrow> (exn + unit) \<times> 'w state" where
  "close_connection drv s =
     (case and_then (the_connection ''close'') (\<lambda>h. call (EvClose h) (db_close drv h)) s of
        (Inr u, s') \<Rightarrow> (Inr (), s')
      | (Inl err, s') \<Rightarrow>
          if isDatabaseError (cls err)
          then (Inr (),
                py_print (''Unexpected error disconnecting from '' @ name s') (logging_error err s'))
          else (Inl err, s'))"

definition disconnect :: "'w driver \<Rightarrow> 'w state \<Rightarrow> (exn + unit) \<times> 'w state" where
  "disconnect drv =
     and_then (status drv) (\<lambda>alive s.
       if alive then
         (if rdbms s = DBType_value ORACLE then close_connection drv s
          else if rdbms s = DBType_value SQL_SERVER then close_connection drv s
          else if rdbms s = DBType_value POSTGRESQL then close_connection drv s
          else if rdbms s = DBType_value MYSQL then close_connection drv s
          else raise ValueError
                 (''Unknown database type '' @ rdbms s @ '' - cannot establish a connection!'') s)
       else ret () s)"

subsection \<open>runSql\<close>

text \<open>The driver calls of \<^verbatim>\<open>runSql\<close> on \<^verbatim>\<open>self.connection\<close> and on the cursor.\<close>

definition get_cursor :: "'w driver \<Rightarrow> 'w state \<Rightarrow> (exn + nat) \<times> 'w state" where
  "get_cursor drv = and_then (the_connection ''cursor'') (\<lambda>h. call (EvCursor h) (db_cursor drv h))"

definition cur_execute :: "'w driver \<Rightarrow> nat \<Rightarrow> string \<Rightarrow> 'w state \<Rightarrow> (exn + int) \<times> 'w state" where
  "cur_execute drv cur sql = call (EvExecute cur sql) (db_execute drv cur sql)"

definition cur_fetchall :: "'w driver \<Rightarrow> nat \<Rightarrow> 'w state \<Rightarrow> (exn + pyval list list) \<times> 'w state" where
  "cur_fetchall drv cur = call (EvFetchall cur) (db_fetchall drv cur)"

definition cur_fetchall_dict :: "'w driver \<Rightarrow> nat \<Rightarrow> 'w state \<Rightarrow> (exn + row list) \<times> 'w state" where
  "cur_fetchall_dict drv cur = call (EvFetchall cur) (db_fetchall_dict drv cur)"

definition conn_commit :: "'w driver \<Rightarrow> 'w state \<Rightarrow> (exn + unit) \<times> 'w state" where
  "conn_commit drv = and_then (the_connection ''commit'') (\<lambda>h. call (EvCommit h) (db_commit drv h))"

text \<open>
  The end of each \<^verbatim>\<open>try\<close> block:
  \<^verbatim>\<open>if commit: self.connection.commit()\<close>, then \<^verbatim>\<open>if kill: self.disconnect()\<close>.
\<close>

definition commit_and_kill :: "'w driver \<Rightarrow> bool \<Rightarrow> bool \<Rightarrow> 'w state \<Rightarrow> (exn + unit) \<times> 'w state" where
  "commit_and_kill drv commit kill =
     and_then (if commit then conn_commit drv else ret ())
       (\<lambda>u. if kill then disconnect drv else ret ())"

text \<open>\<^verbatim>\<open>[{'Row(s) affected': n}]\<close>\<close>

definition rows_affected :: "int \<Rightarrow> row list" where
  "rows_affected n = [[(''Row(s) affected'', IntV n)]]"

text \<open>
  Oracle (lines 248 to 253): without a description the row count is reported; otherwise
  the row factory \<^verbatim>\<open>lambda *args: dict(zip(columns, args))\<close> is applied to every
  fetched tuple.
\<close>

definition oracle_results :: "'w driver \<Rightarrow> nat \<Rightarrow> 'w state \<Rightarrow> (exn + row list) \<times> 'w state" where
  "oracle_results drv cur s =
     (case db_description drv cur (world s) of
        None \<Rightarrow> ret (rows_affected (db_rowcount drv cur (world s))) s
      | Some columns \<Rightarrow>
          and_then (cur_fetchall drv cur)
            (\<lambda>tuples. ret (map (\<lambda>args. py_dict (zip columns args)) tuples)) s)"

text \<open>
  SQL Server (lines 266 to 270): the rows are fetched, and an \<^verbatim>\<open>OperationalError\<close> of
  the fetch is taken to mean DML or DDL.
\<close>

definition sqlserver_results :: "'w driver \<Rightarrow> nat \<Rightarrow> 'w state \<Rightarrow> (exn + row list) \<times> 'w state" where
  "sqlserver_results drv cur s =
     (case cur_fetchall_dict drv cur s of
        (Inr rows, s') \<Rightarrow> (Inr rows, s')
      | (Inl err, s') \<Rightarrow>
          if cls err = OperationalError
          then (Inr (rows_affected (db_rowcount drv cur (world s'))), s')
          else (Inl err, s'))"

text \<open>
  PostgreSQL (lines 283 to 292). The loop appends \<^verbatim>\<open>dict(zip(keys[i], values[i]))\<close>
  for every fetched row to \<^verbatim>\<open>results\<close>, which starts empty.
\<close>

fun pg_append_rows :: "row list \<Rightarrow> row list \<Rightarrow> row list" where
  "pg_append_rows results [] = results"
| "pg_append_rows results (r # rawResults) =
     pg_append_rows (results @ [py_dict (zip (keys r) (vals r))]) rawResults"

definition pg_results :: "'w driver \<Rightarrow> nat \<Rightarrow> 'w state \<Rightarrow> (exn + row list) \<times> 'w state" where
  "pg_results drv cur s =
     (if take 6 (db_statusmessage drv cur (world s)) = ''SELECT''
         \<and> db_rowcount drv cur (world s) > 0
      then and_then (cur_fetchall_dict drv cur) (\<lambda>rawResults. ret (pg_append_rows [] rawResults)) s
      else ret (rows_affected (db_rowcount drv cur (world s))) s)"

text \<open>
  MySQL (lines 305 to 309): the rows are always fetched, and an empty fetch is taken to
  mean DML or DDL; the count is the value \<^verbatim>\<open>cur.execute(sql)\<close> returned.
\<close>

definition mysql_results :: "'w driver \<Rightarrow> nat \<Rightarrow> int \<Rightarrow> 'w state \<Rightarrow> (exn + row list) \<times> 'w state" where
  "mysql_results drv cur rowCount =
     and_then (cur_fetchall_dict drv cur)
       (\<lambda>results. ret (if length results = 0 then rows_affected rowCount else results))"

text \<open>The four \<^verbatim>\<open>try\<close> blocks.\<close>

definition oracle_try ::
  "'w driver \<Rightarrow> string \<Rightarrow> bool \<Rightarrow> bool \<Rightarrow> nat \<Rightarrow> 'w state \<Rightarrow> (exn + row list) \<times> 'w state" where
  "oracle_try drv sql commit kill cur =
     and_then (cur_execute drv cur sql) (\<lambda>n.
     and_then (oracle_results drv cur) (\<lambda>results.
     and_then (commit_and_kill drv commit kill) (\<lambda>u. ret results)))"

definition sqlserver_try ::
  "'w driver \<Rightarrow> string \<Rightarrow> bool \<Rightarrow> bool \<Rightarrow> nat \<Rightarrow> 'w state \<Rightarrow> (exn + row list) \<times> 'w state" where
  "sqlserver_try drv sql commit kill cur =
     and_then (cur_execute drv cur sql) (\<lambda>n.
     and_then (sqlserver_results drv cur) (\<lambda>results.
     and_then (commit_and_kill drv commit kill) (\<lambda>u. ret results)))"

definition pg_try ::
  "'w driver \<Rightarrow> string \<Rightarrow> bool \<Rightarrow> bool \<Rightarrow> nat \<Rightarrow> 'w state \<Rightarrow> (exn + row list) \<times> 'w state" where
  "pg_try drv sql commit kill cur =
     and_then (cur_execute drv cur sql) (\<lambda>n.
     and_then (pg_results drv cur) (\<lambda>results.
     and_then (commit_and_kill drv commit kill) (\<lambda>u. ret results)))"

definition mysql_try ::
  "'w driver \<Rightarrow> string \<Rightarrow> bool \<Rightarrow> bool \<Rightarrow> 'w state \<Rightarrow> (exn + row list) \<times> 'w state" where
  "mysql_try drv sql commit kill =
     and_then (get_cursor drv) (\<lambda>cur.
     and_then (cur_execute drv cur sql) (\<lambda>rowCount.
     and_then (mysql_results drv cur rowCount) (\<lambda>results.
     and_then (commit_and_kill drv commit kill) (\<lambda>u. ret results))))"

text \<open>
  The handler of each \<^verbatim>\<open>try\<close> block: a \<^verbatim>\<open>DatabaseError\<close> is logged, and a new
  \<^verbatim>\<open>DatabaseError\<close> with a fixed message is raised while the first is being handled.
  Any other exception passes through.
\<close>

definition statement_error ::
  "string \<Rightarrow> ('w state \<Rightarrow> (exn + 'a) \<times> 'w state) \<Rightarrow> 'w state \<Rightarrow> (exn + 'a) \<times> 'w state" where
  "statement_error backend body s =
     (case body s of
        (Inr a, s') \<Rightarrow> (Inr a, s')
      | (Inl err, s') \<Rightarrow>
          if isDatabaseError (cls err)
          then (Inl (Exn DatabaseError
                       (''Unable to execute SQL statement using '' @ backend @ '' connection ''
                          @ name s')
                       (Some err)),
                logging_error err s')
          else (Inl err, s'))"

text \<open>
  Lines 239 to 241: \<^verbatim>\<open>self.status()\<close>, then
  \<^verbatim>\<open>if not self.status(): self.connect()\<close>.
\<close>

definition ensure_connection :: "'w driver \<Rightarrow> 'w state \<Rightarrow> (exn + unit) \<times> 'w state" where
  "ensure_connection drv =
     and_then (status drv) (\<lambda>ignored.
     and_then (status drv) (\<lambda>alive. if \<not> alive then connect drv else ret ()))"

text \<open>
  Lines 244 to 318: the branch of the backend. In the last branch the
  \<^verbatim>\<open>ValueError\<close> is built and not raised, so \<^verbatim>\<open>results\<close> stays empty.
\<close>

definition run_statement ::
  "'w driver \<Rightarrow> string \<Rightarrow> bool \<Rightarrow> bool \<Rightarrow> 'w state \<Rightarrow> (exn + row list) \<times> 'w state" where
  "run_statement drv sql commit kill s =
     (if rdbms s = DBType_value ORACLE then
        and_then (get_cursor drv)
          (\<lambda>cur. statement_error ''Oracle'' (oracle_try drv sql commit kill cur)) s
      else if rdbms s = DBType_value SQL_SERVER then
        and_then (get_cursor drv)
          (\<lambda>cur. statement_error ''SQL Server'' (sqlserver_try drv sql commit kill cur)) s
      else if rdbms s = DBType_value POSTGRESQL then
        and_then (get_cursor drv)
          (\<lambda>cur. statement_error ''PostgreSQL'' (pg_try drv sql commit kill cur)) s
      else if rdbms s = DBType_value MYSQL then
        statement_error ''MySQL'' (mysql_try drv sql commit kill) s
      else ret [] s)"

text \<open>
  Lines 320 to 323: \<^verbatim>\<open>if one: results = results[0]\<close>, then the value is stored in
  \<^verbatim>\<open>lastResult\<close> and returned.
\<close>

definition store_result :: "result \<Rightarrow> 'w state \<Rightarrow> (exn + result) \<times> 'w state" where
  "store_result res s = (Inr res, s\<lparr>lastResult := Some res\<rparr>)"

definition reduce_and_store :: "bool \<Rightarrow> row list \<Rightarrow> 'w state \<Rightarrow> (exn + result) \<times> 'w state" where
  "reduce_and_store one results =
     (if one then
        (case results of
           [] \<Rightarrow> raise IndexError ''list index out of range''
         | r # rest \<Rightarrow> store_result (Row r))
      else store_result (Rows results))"

definition runSql ::
  "'w driver \<Rightarrow> string \<Rightarrow> bool \<Rightarrow> bool \<Rightarrow> bool \<Rightarrow> 'w state \<Rightarrow> (exn + result) \<times> 'w state" where
  "runSql drv sql one commit kill =
     and_then (ensure_connection drv) (\<lambda>u.
     and_then (run_statement drv sql commit kill) (reduce_and_store one))"

text \<open>
  The name of the backend in the lines the dispatcher prints and in the messages of the
  errors it raises (\<^verbatim>\<open>Could not establish Oracle connection for ...\<close>,
  \<^verbatim>\<open>Unable to execute SQL statement using SQL Server connection ...\<close>).
\<close>

fun backend_label :: "DBType \<Rightarrow> string" where
  "backend_label ORACLE = ''Oracle''"
| "backend_label SQL_SERVER = ''SQL Server''"
| "backend_label POSTGRESQL = ''PostgreSQL''"
| "backend_label MYSQL = ''MySQL''"

section \<open>Vocabulary of the properties\<close>

text \<open>The driver calls made between two states of a run.\<close>

definition new_calls :: "'w state \<Rightarrow> 'w state \<Rightarrow> event list" where
  "new_calls s s' = drop (length (trace s)) (trace s')"

text \<open>
  A step is steady when it leaves the dispatcher's name, backend, connection attribute and
  last result as they were, and makes driver calls none of which opens a connection.
\<close>

definition steady :: "'w state \<Rightarrow> 'w state \<Rightarrow> bool" where
  "steady s s' \<longleftrightarrow>
     name s' = name s \<and> rdbms s' = rdbms s \<and> connection s' = connection s
     \<and> lastResult s' = lastResult s
     \<and> (\<exists>evs. trace s' = trace s @ evs \<and> EvConnect \<notin> set evs)"

text \<open>
  A contract a driver may meet for a backend: whenever \<^verbatim>\<open>close()\<close> on a connection
  that is alive returns, or fails with an error that \<^verbatim>\<open>disconnect()\<close> swallows, the
  probe that \<^verbatim>\<open>status()\<close> reads reports the connection as not alive afterwards.
  Nothing is asked of \<^verbatim>\<open>close()\<close> on a connection that is not alive (a driver may
  refuse to close twice), nor of a \<^verbatim>\<open>close()\<close> whose error reaches the caller.
\<close>

definition close_releases :: "'w driver \<Rightarrow> string \<Rightarrow> bool" where
  "close_releases drv backend \<longleftrightarrow>
     (\<forall>t h r w'.
        connection t = Some h \<and> rdbms t = backend \<and> fst (status drv t) = Inr True
        \<and> db_close drv h (world t) = (r, w')
        \<and> (case r of Inr u \<Rightarrow> True | Inl err \<Rightarrow> isDatabaseError (cls err))
        \<longrightarrow> fst (status drv (t\<lparr>world := w'\<rparr>)) = Inr False)"

section \<open>Example drivers\<close>

text \<open>
  Concrete drivers, on which the theorems below are instantiated. The driver state is one
  flag: whether the native connection (handle 1) is open. The health probes read the flag,
  \<^verbatim>\<open>close()\<close> clears it, and cursors have handle 7.

  \<open>update_driver\<close> answers as each backend does to an \<^verbatim>\<open>UPDATE\<close> of three rows:
  there is no description, a tuple cursor has nothing to fetch, the SQL Server fetch
  raises \<^verbatim>\<open>OperationalError\<close>, the PostgreSQL fetch raises \<^verbatim>\<open>ProgrammingError\<close> and
  the MySQL fetch is empty.
\<close>

definition update_driver :: "DBType \<Rightarrow> bool driver" where
  "update_driver bt =
     \<lparr> db_connect = (\<lambda>w. (Inr 1, True)),
       db_is_healthy = (\<lambda>h w. Inr w),
       db_connected = (\<lambda>h w. if w then Inr True
                               else Inl (Exn InterfaceError ''Connection is closed.'' None)),
       db_closed = (\<lambda>h w. if w then 0 else 1),
       db_open = (\<lambda>h w. if w then 1 else 0),
       db_close = (\<lambda>h w. (Inr (), False)),
       db_commit = (\<lambda>h w. (Inr (), w)),
       db_cursor = (\<lambda>h w. (Inr 7, w)),
       db_execute = (\<lambda>c sql w. (Inr 3, w)),
       db_description = (\<lambda>c w. None),
       db_rowcount = (\<lambda>c w. 3),
       db_statusmessage = (\<lambda>c w. ''UPDATE 3''),
       db_fetchall = (\<lambda>c w. (Inl (Exn InterfaceError ''not a query'' None), w)),
       db_fetchall_dict = (\<lambda>c w.
         (case bt of
            MYSQL \<Rightarrow> (Inr [], w)
          | SQL_SERVER \<Rightarrow>
              (Inl (Exn OperationalError
                      ''Statement not executed or executed statement has no resultset'' None), w)
          | _ \<Rightarrow> (Inl (Exn ProgrammingError ''no results to fetch'' None), w))),
       db_traceback = (\<lambda>err. ''Traceback (most recent call last): ...'') \<rparr>"

text \<open>
  \<open>select_driver\<close> answers as the backends do to a \<^verbatim>\<open>SELECT\<close> of two rows with the
  columns \<^verbatim>\<open>id\<close> and \<^verbatim>\<open>name\<close>.
\<close>

definition select_driver :: "bool driver" where
  "select_driver =
     (update_driver ORACLE)
     \<lparr> db_execute := (\<lambda>c sql w. (Inr 2, w)),
       db_description := (\<lambda>c w. Some [''id'', ''name'']),
       db_rowcount := (\<lambda>c w. 2),
       db_statusmessage := (\<lambda>c w. ''SELECT 2''),
       db_fetchall := (\<lambda>c w. (Inr [[IntV 1, StrV ''ann''], [IntV 2, StrV ''bob'']], w)),
       db_fetchall_dict := (\<lambda>c w.
         (Inr [[(''id'', IntV 1), (''name'', StrV ''ann'')],
               [(''id'', IntV 2), (''name'', StrV ''bob'')]], w)) \<rparr>"

text \<open>\<open>empty_select_driver\<close>: the same \<^verbatim>\<open>SELECT\<close> when no row matches.\<close>

definition empty_select_driver :: "bool driver" where
  "empty_select_driver =
     select_driver
     \<lparr> db_execute := (\<lambda>c sql w. (Inr 0, w)),
       db_rowcount := (\<lambda>c w. 0),
       db_statusmessage := (\<lambda>c w. ''SELECT 0''),
       db_fetchall := (\<lambda>c w. (Inr [], w)),
       db_fetchall_dict := (\<lambda>c w. (Inr [], w)) \<rparr>"

text \<open>
  \<open>create_table_as_driver\<close>: PostgreSQL after \<^verbatim>\<open>CREATE TABLE t AS SELECT ...\<close> of three
  rows. The server's command tag is \<^verbatim>\<open>SELECT 3\<close> and the row count is 3, but the
  statement has no result set: there is no description and the fetch raises
  \<^verbatim>\<open>ProgrammingError\<close>.
\<close>

definition create_table_as_driver :: "bool driver" where
  "create_table_as_driver =
     (update_driver POSTGRESQL) \<lparr> db_statusmessage := (\<lambda>c w. ''SELECT 3'') \<rparr>"

text \<open>\<open>failing_driver\<close>: the statement names a table that does not exist.\<close>

definition failing_driver :: "bool driver" where
  "failing_driver =
     (update_driver ORACLE)
     \<lparr> db_execute := (\<lambda>c sql w.
         (Inl (Exn DatabaseError ''ORA-00942: table or view does not exist'' None), w)) \<rparr>"

text \<open>\<open>unreachable_driver\<close>: the server cannot be reached.\<close>

definition unreachable_driver :: "bool driver" where
  "unreachable_driver =
     (update_driver ORACLE)
     \<lparr> db_connect := (\<lambda>w.
         (Inl (Exn OperationalError ''could not connect to server'' None), False)) \<rparr>"

text \<open>
  \<open>interface_error_driver\<close>: the connect call fails in the driver's interface layer,
  which the DB-API reports as \<^verbatim>\<open>InterfaceError\<close>, not as \<^verbatim>\<open>DatabaseError\<close>.
\<close>

definition interface_error_driver :: "bool driver" where
  "interface_error_driver =
     (update_driver SQL_SERVER)
     \<lparr> db_connect := (\<lambda>w.
         (Inl (Exn InterfaceError ''Connection to the database failed for an unknown reason.''
                 None), w)) \<rparr>"

text \<open>
  \<open>strict_close_driver\<close>: as \<open>select_driver\<close>, but \<^verbatim>\<open>close()\<close> on a connection
  that is not open raises.
\<close>

definition strict_close_driver :: "bool driver" where
  "strict_close_driver =
     select_driver
     \<lparr> db_close := (\<lambda>h w.
         if w then (Inr (), False)
         else (Inl (Exn InterfaceError ''DPY-1001: not connected to database'' None), False)) \<rparr>"

text \<open>
  \<open>duplicate_columns_driver\<close>: a \<^verbatim>\<open>SELECT a.id, b.id FROM ...\<close> of one row; both
  columns are named \<^verbatim>\<open>id\<close>.
\<close>

definition duplicate_columns_driver :: "bool driver" where
  "duplicate_columns_driver =
     select_driver
     \<lparr> db_execute := (\<lambda>c sql w. (Inr 1, w)),
       db_description := (\<lambda>c w. Some [''id'', ''id'']),
       db_rowcount := (\<lambda>c w. 1),
       db_statusmessage := (\<lambda>c w. ''SELECT 1''),
       db_fetchall := (\<lambda>c w. (Inr [[IntV 1, IntV 2]], w)) \<rparr>"

text \<open>A dispatcher that has not connected yet, one with an open connection, and one whose
  connection has gone stale.\<close>

definition fresh :: "DBType \<Rightarrow> bool state" where
  "fresh bt =
     \<lparr> name = ''reporting'', rdbms = DBType_value bt, connection = None, lastResult = None,
       out = [], trace = [], world = False \<rparr>"

definition connected :: "DBType \<Rightarrow> bool state" where
  "connected bt = (fresh bt) \<lparr> connection := Some 1, world := True \<rparr>"

definition stale :: "DBType \<Rightarrow> bool state" where
  "stale bt = (fresh bt) \<lparr> connection := Some 1 \<rparr>"

section \<open>Basic facts\<close>

text \<open>The definitions that evaluate a run on a concrete driver.\<close>

lemmas run_defs =
  runSql_def ensure_connection_def run_statement_def reduce_and_store_def store_result_def
  statement_error_def oracle_try_def sqlserver_try_def pg_try_def mysql_try_def
  oracle_results_def sqlserver_results_def pg_results_def mysql_results_def rows_affected_def
  commit_and_kill_def conn_commit_def get_cursor_def cur_execute_def cur_fetchall_def
  cur_fetchall_dict_def disconnect_def close_connection_def connect_def assign_connection_def
  oracleConnection_def sqlServerConnection_def pgConnection_def mySqlConnection_def
  native_connection_def status_def the_connection_def call_def py_print_def logging_error_def
  logging_exception_def and_then_def ret_def raise_def py_dict_def keys_def vals_def

lemmas example_defs =
  update_driver_def select_driver_def empty_select_driver_def create_table_as_driver_def
  failing_driver_def unreachable_driver_def interface_error_driver_def strict_close_driver_def
  duplicate_columns_driver_def fresh_def connected_def stale_def

text \<open>What each method leaves unchanged.\<close>

lemma status_frame:
  "status drv s = (r, s') \<Longrightarrow>
     name s' = name s \<and> rdbms s' = rdbms s \<and> connection s' = connection s
     \<and> lastResult s' = lastResult s \<and> trace s' = trace s \<and> world s' = world s"
  by (auto simp: status_def py_print_def logging_error_def
           split: option.splits if_splits sum.splits)

lemma status_cong:
  "connection t = connection s \<Longrightarrow> rdbms t = rdbms s \<Longrightarrow> world t = world s \<Longrightarrow>
     fst (status drv t) = fst (status drv s)"
  by (auto simp: status_def split: option.splits sum.splits)

lemma status_twice:
  "status drv s = (r, s') \<Longrightarrow> fst (status drv s') = r"
  using status_frame[of drv s r s'] status_cong[of s' s drv] by simp

lemma native_connection_frame:
  assumes "native_connection b log drv s = (r, s')"
    and "log = logging_error \<or> log = logging_exception drv"
  shows "name s' = name s \<and> rdbms s' = rdbms s \<and> lastResult s' = lastResult s
     \<and> connection s' = connection s"
  using assms
  by (auto simp: native_connection_def call_def py_print_def logging_error_def
        logging_exception_def
           split: prod.splits sum.splits if_splits)

lemma helper_frame:
  assumes "helper = oracleConnection drv \<or> helper = sqlServerConnection drv
           \<or> helper = pgConnection drv \<or> helper = mySqlConnection drv"
    and "assign_connection helper s = (r, s')"
  shows "name s' = name s \<and> rdbms s' = rdbms s \<and> lastResult s' = lastResult s"
proof -
  obtain q s1 where h: "helper s = (q, s1)" by (cases "helper s")
  from assms(1) h have "name s1 = name s \<and> rdbms s1 = rdbms s \<and> lastResult s1 = lastResult s"
    unfolding oracleConnection_def sqlServerConnection_def pgConnection_def mySqlConnection_def
    using native_connection_frame by blast
  with assms(2) h show ?thesis
    by (auto simp: assign_connection_def py_print_def logging_error_def
             split: sum.splits if_splits)
qed

lemma connect_frame:
  "connect drv s = (r, s') \<Longrightarrow>
     name s' = name s \<and> rdbms s' = rdbms s \<and> lastResult s' = lastResult s"
  using helper_frame [of _ drv s r s']
  by (auto simp: connect_def raise_def split: if_splits)

lemma ensure_connection_frame:
  "ensure_connection drv s = (r, s') \<Longrightarrow>
     name s' = name s \<and> rdbms s' = rdbms s \<and> lastResult s' = lastResult s"
  by (auto simp: ensure_connection_def and_then_def ret_def
           dest!: status_frame connect_frame
           split: prod.splits sum.splits if_splits)

lemma get_cursor_frame:
  "get_cursor drv s = (r, s') \<Longrightarrow>
     name s' = name s \<and> rdbms s' = rdbms s \<and> lastResult s' = lastResult s
     \<and> connection s' = connection s \<and> out s' = out s"
  by (auto simp: get_cursor_def and_then_def the_connection_def raise_def call_def
           split: prod.splits sum.splits option.splits)

lemma cur_execute_frame:
  "cur_execute drv cur sql s = (r, s') \<Longrightarrow>
     name s' = name s \<and> rdbms s' = rdbms s \<and> lastResult s' = lastResult s
     \<and> connection s' = connection s \<and> out s' = out s"
  by (auto simp: cur_execute_def call_def split: prod.splits)

text \<open>\<^verbatim>\<open>dict(zip(...))\<close> of pairwise distinct keys keeps every pair, in order.\<close>

lemma dict_set_fresh: "k \<notin> fst ` set d \<Longrightarrow> dict_set d k v = d @ [(k, v)]"
  by (induction d) auto

lemma py_dict_from_distinct:
  "distinct (map fst (d @ kvs)) \<Longrightarrow> py_dict_from d kvs = d @ kvs"
proof (induction kvs arbitrary: d)
  case Nil
  then show ?case by simp
next
  case (Cons kv kvs)
  obtain k v where kv: "kv = (k, v)" by (cases kv)
  from Cons.prems kv have fresh: "k \<notin> fst ` set d" by auto
  from Cons.prems kv have "distinct (map fst ((d @ [(k, v)]) @ kvs))" by simp
  from Cons.IH [OF this] show ?case using kv fresh by (simp add: dict_set_fresh)
qed

lemma py_dict_distinct: "distinct (map fst kvs) \<Longrightarrow> py_dict kvs = kvs"
  using py_dict_from_distinct [of "[]" kvs] by (simp add: py_dict_def)

lemma py_dict_zip_columns:
  "distinct columns \<Longrightarrow> length args = length columns \<Longrightarrow>
     py_dict (zip columns args) = zip columns args \<and> keys (zip columns args) = columns"
  by (simp add: py_dict_distinct keys_def)

lemma py_dict_of_row: "distinct (keys r) \<Longrightarrow> py_dict (zip (keys r) (vals r)) = r"
  by (simp add: keys_def vals_def zip_map_fst_snd py_dict_distinct)

lemma pg_append_rows_eq:
  "pg_append_rows results rawResults =
     results @ map (\<lambda>r. py_dict (zip (keys r) (vals r))) rawResults"
  by (induction rawResults arbitrary: results) auto

lemma pg_append_rows_id:
  "\<forall>r\<in>set rawResults. distinct (keys r) \<Longrightarrow> pg_append_rows [] rawResults = rawResults"
  by (simp add: pg_append_rows_eq py_dict_of_row map_idI)

text \<open>
  A run that reaches the statement. When \<^verbatim>\<open>cur.execute\<close> raises a
  \<^verbatim>\<open>DatabaseError\<close>, the handler logs it and raises the dispatcher's own error; the
  state is the one the failing call left, with the log line added.
\<close>

lemma runSql_execute_fails:
  assumes "rdbms s = DBType_value bt"
    and "ensure_connection drv s = (Inr (), s1)"
    and "get_cursor drv s1 = (Inr cur, s2)"
    and "cur_execute drv cur sql s2 = (Inl err, s3)"
    and "isDatabaseError (cls err)"
  shows "runSql drv sql one commit kill s =
           (Inl (Exn DatabaseError
                   (''Unable to execute SQL statement using '' @ backend_label bt
                      @ '' connection '' @ name s)
                   (Some err)),
            logging_error err s3)"
proof -
  have n: "name s3 = name s" "rdbms s1 = rdbms s"
    using ensure_connection_frame [OF assms(2)] get_cursor_frame [OF assms(3)]
      cur_execute_frame [OF assms(4)] by simp_all
  show ?thesis
    using assms n
    by (cases bt)
       (simp_all add: runSql_def run_statement_def and_then_def statement_error_def
          oracle_try_def sqlserver_try_def pg_try_def mysql_try_def)
qed

text \<open>
  When \<^verbatim>\<open>cur.execute\<close> returns, the result is the backend's reading of the cursor,
  reduced and stored after the commit and the disconnect.
\<close>

lemma runSql_results:
  assumes "rdbms s = DBType_value bt"
    and "ensure_connection drv s = (Inr (), s1)"
    and "get_cursor drv s1 = (Inr cur, s2)"
    and "cur_execute drv cur sql s2 = (Inr n, s3)"
    and "(case bt of
            ORACLE \<Rightarrow> oracle_results drv cur s3
          | SQL_SERVER \<Rightarrow> sqlserver_results drv cur s3
          | POSTGRESQL \<Rightarrow> pg_results drv cur s3
          | MYSQL \<Rightarrow> mysql_results drv cur n s3) = (Inr results, s4)"
    and "commit_and_kill drv commit kill s4 = (Inr (), s5)"
  shows "runSql drv sql one commit kill s = reduce_and_store one results s5"
proof -
  have n: "rdbms s1 = rdbms s"
    using ensure_connection_frame [OF assms(2)] by simp
  show ?thesis
    using assms n
    by (cases bt)
       (simp_all add: runSql_def run_statement_def and_then_def statement_error_def
          oracle_try_def sqlserver_try_def pg_try_def mysql_try_def ret_def)
qed

text \<open>
  Everything \<^verbatim>\<open>runSql\<close> does after the connection check is steady, up to the
  assignment of \<^verbatim>\<open>lastResult\<close>.
\<close>

named_theorems steady_rules

lemma steady_refl [simp]: "steady s s"
  by (simp add: steady_def)

lemma steady_trans: "steady s s1 \<Longrightarrow> steady s1 s2 \<Longrightarrow> steady s s2"
  by (auto simp: steady_def)

lemma steady_out [simp]:
  "steady s (logging_error err s1) = steady s s1" "steady s (py_print line s1) = steady s s1"
  by (simp_all add: steady_def logging_error_def py_print_def)

lemma steady_ret [simp]: "steady s (snd (ret a s))"
  by (simp add: ret_def)

lemma steady_raise [simp]: "steady s (snd (raise c m s))"
  by (simp add: raise_def)

lemma steady_call: "ev \<noteq> EvConnect \<Longrightarrow> steady s (snd (call ev f s))"
  by (simp add: call_def steady_def split: prod.splits)

lemma steady_and_then:
  assumes "steady s (snd (m s))" and "\<And>a s1. steady s1 (snd (f a s1))"
  shows "steady s (snd (and_then m f s))"
proof (cases "m s")
  case (Pair r s1)
  show ?thesis
  proof (cases r)
    case (Inl e)
    with Pair assms(1) show ?thesis by (simp add: and_then_def)
  next
    case (Inr a)
    with Pair have "and_then m f s = f a s1" by (simp add: and_then_def)
    with assms(1) Pair assms(2) [of s1 a] show ?thesis
      by (auto intro: steady_trans)
  qed
qed

lemma steady_status [steady_rules]: "steady s (snd (status drv s))"
  using status_frame [of drv s "fst (status drv s)" "snd (status drv s)"]
  by (simp add: steady_def)

lemma steady_the_connection [steady_rules]: "steady s (snd (the_connection attr s))"
  by (simp add: the_connection_def split: option.splits)

lemma steady_get_cursor [steady_rules]: "steady s (snd (get_cursor drv s))"
  unfolding get_cursor_def by (intro steady_and_then steady_call) (simp_all add: steady_rules)

lemma steady_conn_commit [steady_rules]: "steady s (snd (conn_commit drv s))"
  unfolding conn_commit_def by (intro steady_and_then steady_call) (simp_all add: steady_rules)

lemma steady_cur_execute [steady_rules]: "steady s (snd (cur_execute drv cur sql s))"
  unfolding cur_execute_def by (intro steady_call) simp

lemma steady_cur_fetchall [steady_rules]: "steady s (snd (cur_fetchall drv cur s))"
  unfolding cur_fetchall_def by (intro steady_call) simp

lemma steady_cur_fetchall_dict [steady_rules]: "steady s (snd (cur_fetchall_dict drv cur s))"
  unfolding cur_fetchall_dict_def by (intro steady_call) simp

lemma steady_close_connection [steady_rules]: "steady s (snd (close_connection drv s))"
proof -
  have "steady s (snd (and_then (the_connection ''close'') (\<lambda>h. call (EvClose h) (db_close drv h)) s))"
    by (intro steady_and_then steady_call) (simp_all add: steady_rules)
  then show ?thesis
    by (auto simp: close_connection_def split: prod.splits sum.splits)
qed

lemma steady_disconnect [steady_rules]: "steady s (snd (disconnect drv s))"
  unfolding disconnect_def by (intro steady_and_then) (simp_all add: steady_rules)

lemma steady_commit_and_kill [steady_rules]: "steady s (snd (commit_and_kill drv commit kill s))"
  unfolding commit_and_kill_def by (intro steady_and_then) (simp_all add: steady_rules)

lemma steady_oracle_results [steady_rules]: "steady s (snd (oracle_results drv cur s))"
  unfolding oracle_results_def
  by (cases "db_description drv cur (world s)") (auto intro!: steady_and_then steady_rules)

lemma steady_sqlserver_results [steady_rules]: "steady s (snd (sqlserver_results drv cur s))"
  using steady_cur_fetchall_dict [of s drv cur]
  by (auto simp: sqlserver_results_def split: prod.splits sum.splits)

lemma steady_pg_results [steady_rules]: "steady s (snd (pg_results drv cur s))"
  unfolding pg_results_def by (auto intro!: steady_and_then steady_rules)

lemma steady_mysql_results [steady_rules]: "steady s (snd (mysql_results drv cur n s))"
  unfolding mysql_results_def by (intro steady_and_then) (simp_all add: steady_rules)

lemma steady_oracle_try [steady_rules]: "steady s (snd (oracle_try drv sql commit kill cur s))"
  unfolding oracle_try_def by (intro steady_and_then) (simp_all add: steady_rules)

lemma steady_sqlserver_try [steady_rules]: "steady s (snd (sqlserver_try drv sql commit kill cur s))"
  unfolding sqlserver_try_def by (intro steady_and_then) (simp_all add: steady_rules)

lemma steady_pg_try [steady_rules]: "steady s (snd (pg_try drv sql commit kill cur s))"
  unfolding pg_try_def by (intro steady_and_then) (simp_all add: steady_rules)

lemma steady_mysql_try [steady_rules]: "steady s (snd (mysql_try drv sql commit kill s))"
  unfolding mysql_try_def by (intro steady_and_then) (simp_all add: steady_rules)

lemma steady_statement_error:
  "steady s (snd (body s)) \<Longrightarrow> steady s (snd (statement_error backend body s))"
  by (auto simp: statement_error_def split: prod.splits sum.splits)

lemma steady_run_statement [steady_rules]: "steady s (snd (run_statement drv sql commit kill s))"
  unfolding run_statement_def
  by (auto intro!: steady_and_then steady_statement_error steady_rules)

text \<open>
  With \<^verbatim>\<open>kill=True\<close> a try block that completes has ended with \<^verbatim>\<open>disconnect()\<close>;
  for a driver that meets the contract, \<^verbatim>\<open>status()\<close> is false from then on.
\<close>

lemma status_true_connection:
  "status drv s = (Inr True, s') \<Longrightarrow> \<exists>h bt. connection s = Some h \<and> rdbms s = DBType_value bt"
  by (cases "connection s")
     (auto simp: status_def split: if_splits sum.splits intro: exI [of _ ORACLE]
        exI [of _ SQL_SERVER] exI [of _ POSTGRESQL] exI [of _ MYSQL])

lemma close_connection_releases:
  assumes "close_releases drv (rdbms s)" and "connection s = Some h"
    and "fst (status drv s) = Inr True"
    and "close_connection drv s = (Inr (), s')"
  shows "fst (status drv s') = Inr False"
proof -
  obtain r w' where c: "db_close drv h (world s) = (r, w')"
    by (cases "db_close drv h (world s)")
  let ?s1 = "s\<lparr>trace := trace s @ [EvClose h], world := w'\<rparr>"
  have call: "and_then (the_connection ''close'') (\<lambda>h. call (EvClose h) (db_close drv h)) s
                = (r, ?s1)"
    using assms(2) c by (simp add: and_then_def the_connection_def call_def)
  have swallowed: "case r of Inr u \<Rightarrow> True | Inl err \<Rightarrow> isDatabaseError (cls err)"
    using assms(4) call
    by (cases r) (auto simp: close_connection_def split: if_splits)
  have same: "connection s' = connection s \<and> rdbms s' = rdbms s \<and> world s' = w'"
    using assms(4) call
    by (cases r)
       (auto simp: close_connection_def py_print_def logging_error_def split: if_splits)
  from assms(1,2,3) c swallowed
  have "fst (status drv (s\<lparr>world := w'\<rparr>)) = Inr False"
    unfolding close_releases_def by blast
  moreover have "fst (status drv s') = fst (status drv (s\<lparr>world := w'\<rparr>))"
    by (rule status_cong) (simp_all add: same)
  ultimately show ?thesis by simp
qed

lemma disconnect_releases:
  assumes "close_releases drv (rdbms s)" and "disconnect drv s = (Inr (), s')"
  shows "fst (status drv s') = Inr False"
proof (cases "status drv s")
  case (Pair r s1)
  note fr = status_frame [OF Pair]
  show ?thesis
  proof (cases r)
    case (Inl e)
    with Pair assms(2) show ?thesis by (simp add: disconnect_def and_then_def)
  next
    case (Inr alive)
    show ?thesis
    proof (cases alive)
      case False
      with Inr Pair assms(2) have "s' = s1" by (simp add: disconnect_def and_then_def ret_def)
      with status_twice [OF Pair] Inr False show ?thesis by simp
    next
      case True
      with Inr Pair status_true_connection [of drv s s1]
      obtain h bt where h: "connection s = Some h" "rdbms s = DBType_value bt" by auto
      with True Inr Pair assms(2) fr have c: "close_connection drv s1 = (Inr (), s')"
        by (cases bt) (simp_all add: disconnect_def and_then_def)
      have "fst (status drv s1) = Inr True"
        using status_twice [OF Pair] Inr True by simp
      with close_connection_releases [of drv s1 h s'] assms(1) fr h c
      show ?thesis by simp
    qed
  qed
qed

lemma commit_and_kill_releases:
  assumes "close_releases drv (rdbms s)"
    and "commit_and_kill drv commit True s = (Inr (), s')"
  shows "fst (status drv s') = Inr False"
proof -
  obtain r s1 where c: "(if commit then conn_commit drv else ret ()) s = (r, s1)"
    by (cases "(if commit then conn_commit drv else ret ()) s")
  have "steady s (snd ((if commit then conn_commit drv else ret ()) s))"
    by (simp add: steady_rules)
  with c have "rdbms s1 = rdbms s" by (simp add: steady_def)
  moreover from c assms(2) have "disconnect drv s1 = (Inr (), s')"
    by (cases r) (simp_all add: commit_and_kill_def and_then_def)
  ultimately show ?thesis using disconnect_releases [of drv s1 s'] assms(1) by simp
qed

text \<open>Every try block ends with the commit and the disconnect.\<close>

lemma try_block_ends:
  assumes "and_then m (\<lambda>results. and_then (commit_and_kill drv commit kill) (\<lambda>u. ret results)) s
             = (Inr results, s')"
    and "steady s (snd (m s))"
  shows "\<exists>s4. rdbms s4 = rdbms s \<and> commit_and_kill drv commit kill s4 = (Inr (), s')"
  using assms
  by (auto simp: and_then_def ret_def steady_def split: prod.splits sum.splits)

lemma run_statement_releases:
  assumes "close_releases drv (rdbms s)" and "rdbms s = DBType_value bt"
    and "run_statement drv sql commit True s = (Inr results, s')"
  shows "fst (status drv s') = Inr False"
proof -
  have "\<exists>s4. rdbms s4 = rdbms s \<and> commit_and_kill drv commit True s4 = (Inr (), s')"
  proof (cases bt)
    case ORACLE
    with assms(2,3) obtain cur s2 where g: "get_cursor drv s = (Inr cur, s2)"
      and t: "oracle_try drv sql commit True cur s2 = (Inr results, s')"
      by (auto simp: run_statement_def and_then_def statement_error_def
               split: prod.splits sum.splits if_splits)
    have r2: "rdbms s2 = rdbms s" using get_cursor_frame [OF g] by simp
    obtain rn s3 where e: "cur_execute drv cur sql s2 = (rn, s3)"
      by (cases "cur_execute drv cur sql s2")
    have r3: "rdbms s3 = rdbms s2" using cur_execute_frame [OF e] by simp
    from t e have "and_then (oracle_results drv cur)
        (\<lambda>results. and_then (commit_and_kill drv commit True) (\<lambda>u. ret results)) s3
        = (Inr results, s')"
      by (cases rn) (simp_all add: oracle_try_def and_then_def)
    from try_block_ends [OF this] r2 r3 show ?thesis by (auto simp: steady_rules)
  next
    case SQL_SERVER
    with assms(2,3) obtain cur s2 where g: "get_cursor drv s = (Inr cur, s2)"
      and t: "sqlserver_try drv sql commit True cur s2 = (Inr results, s')"
      by (auto simp: run_statement_def and_then_def statement_error_def
               split: prod.splits sum.splits if_splits)
    have r2: "rdbms s2 = rdbms s" using get_cursor_frame [OF g] by simp
    obtain rn s3 where e: "cur_execute drv cur sql s2 = (rn, s3)"
      by (cases "cur_execute drv cur sql s2")
    have r3: "rdbms s3 = rdbms s2" using cur_execute_frame [OF e] by simp
    from t e have "and_then (sqlserver_results drv cur)
        (\<lambda>results. and_then (commit_and_kill drv commit True) (\<lambda>u. ret results)) s3
        = (Inr results, s')"
      by (cases rn) (simp_all add: sqlserver_try_def and_then_def)
    from try_block_ends [OF this] r2 r3 show ?thesis by (auto simp: steady_rules)
  next
    case POSTGRESQL
    with assms(2,3) obtain cur s2 where g: "get_cursor drv s = (Inr cur, s2)"
      and t: "pg_try drv sql commit True cur s2 = (Inr results, s')"
      by (auto simp: run_statement_def and_then_def statement_error_def
               split: prod.splits sum.splits if_splits)
    have r2: "rdbms s2 = rdbms s" using get_cursor_frame [OF g] by simp
    obtain rn s3 where e: "cur_execute drv cur sql s2 = (rn, s3)"
      by (cases "cur_execute drv cur sql s2")
    have r3: "rdbms s3 = rdbms s2" using cur_execute_frame [OF e] by simp
    from t e have "and_then (pg_results drv cur)
        (\<lambda>results. and_then (commit_and_kill drv commit True) (\<lambda>u. ret results)) s3
        = (Inr results, s')"
      by (cases rn) (simp_all add: pg_try_def and_then_def)
    from try_block_ends [OF this] r2 r3 show ?thesis by (auto simp: steady_rules)
  next
    case MYSQL
    with assms(2,3) have t: "mysql_try drv sql commit True s = (Inr results, s')"
      by (auto simp: run_statement_def statement_error_def
               split: prod.splits sum.splits if_splits)
    then obtain cur s2 where g: "get_cursor drv s = (Inr cur, s2)"
      by (cases "get_cursor drv s") (auto simp: mysql_try_def and_then_def split: sum.splits)
    have r2: "rdbms s2 = rdbms s" using get_cursor_frame [OF g] by simp
    obtain rn s3 where e: "cur_execute drv cur sql s2 = (rn, s3)"
      by (cases "cur_execute drv cur sql s2")
    have r3: "rdbms s3 = rdbms s2" using cur_execute_frame [OF e] by simp
    from t g e obtain n where "and_then (mysql_results drv cur n)
        (\<lambda>results. and_then (commit_and_kill drv commit True) (\<lambda>u. ret results)) s3
        = (Inr results, s')"
      by (cases rn) (simp_all add: mysql_try_def and_then_def)
    from try_block_ends [OF this] r2 r3 show ?thesis by (auto simp: steady_rules)
  qed
  then obtain s4 where "rdbms s4 = rdbms s" "commit_and_kill drv commit True s4 = (Inr (), s')"
    by blast
  with commit_and_kill_releases [of drv s4 commit s'] assms(1) show ?thesis by simp
qed

lemma ensure_connection_known:
  assumes "ensure_connection drv s = (Inr (), s1)"
  shows "\<exists>bt. rdbms s = DBType_value bt"
proof (rule ccontr)
  assume "\<nexists>bt. rdbms s = DBType_value bt"
  then have u: "rdbms s \<noteq> DBType_value ORACLE" "rdbms s \<noteq> DBType_value SQL_SERVER"
    "rdbms s \<noteq> DBType_value POSTGRESQL" "rdbms s \<noteq> DBType_value MYSQL"
    by blast+
  then have "status drv s = (Inr False, s)"
    by (simp add: status_def split: option.splits)
  with u have "fst (ensure_connection drv s) = Inl (Exn ValueError
      (''Unknown database type '' @ rdbms s @ '' - cannot establish a connection!'') None)"
    by (simp add: ensure_connection_def and_then_def connect_def raise_def)
  with assms show False by simp
qed

text \<open>The driver calls of a run, in order.\<close>

lemma new_calls_append [simp]: "trace s' = trace s @ evs \<Longrightarrow> new_calls s s' = evs"
  by (simp add: new_calls_def)

lemma trace_reduce_and_store [simp]:
  "trace (snd (reduce_and_store one results s)) = trace s"
  by (simp add: reduce_and_store_def store_result_def raise_def split: list.splits)

lemma statement_phase_extends:
  "\<exists>evs. trace (snd (and_then (run_statement drv sql commit kill) (reduce_and_store one) s))
           = trace s @ evs \<and> EvConnect \<notin> set evs"
proof (cases "run_statement drv sql commit kill s")
  case (Pair r s1)
  have "steady s (snd (run_statement drv sql commit kill s))" by (simp add: steady_rules)
  with Pair obtain evs where "trace s1 = trace s @ evs" "EvConnect \<notin> set evs"
    by (auto simp: steady_def)
  with Pair show ?thesis by (cases r) (simp_all add: and_then_def)
qed

lemma trace_statement_error [simp]:
  "trace (snd (statement_error backend body s)) = trace (snd (body s))"
  by (simp add: statement_error_def logging_error_def split: prod.splits sum.splits)

lemma after_cursor:
  assumes "connection s = Some h" and "\<And>cur s1. steady s1 (snd (f cur s1))"
  shows "\<exists>evs. trace (snd (and_then (get_cursor drv) f s)) = trace s @ EvCursor h # evs"
proof (cases "db_cursor drv h (world s)")
  case (Pair r w')
  let ?s1 = "s\<lparr>trace := trace s @ [EvCursor h], world := w'\<rparr>"
  from Pair assms(1) have g: "get_cursor drv s = (r, ?s1)"
    by (simp add: get_cursor_def and_then_def the_connection_def call_def)
  show ?thesis
  proof (cases r)
    case (Inl e)
    with g show ?thesis by (simp add: and_then_def)
  next
    case (Inr cur)
    with g have "and_then (get_cursor drv) f s = f cur ?s1" by (simp add: and_then_def)
    with assms(2) [of ?s1 cur] show ?thesis by (auto simp: steady_def)
  qed
qed

lemma run_statement_first_call:
  assumes "rdbms s = DBType_value bt" and "connection s = Some h"
  shows "\<exists>evs. trace (snd (run_statement drv sql commit kill s)) = trace s @ EvCursor h # evs"
proof (cases bt)
  case ORACLE
  with assms(1) show ?thesis
    using after_cursor [OF assms(2),
        of "\<lambda>cur. statement_error ''Oracle'' (oracle_try drv sql commit kill cur)" drv]
    by (simp add: run_statement_def steady_statement_error steady_rules)
next
  case SQL_SERVER
  with assms(1) show ?thesis
    using after_cursor [OF assms(2),
        of "\<lambda>cur. statement_error ''SQL Server'' (sqlserver_try drv sql commit kill cur)" drv]
    by (simp add: run_statement_def steady_statement_error steady_rules)
next
  case POSTGRESQL
  with assms(1) show ?thesis
    using after_cursor [OF assms(2),
        of "\<lambda>cur. statement_error ''PostgreSQL'' (pg_try drv sql commit kill cur)" drv]
    by (simp add: run_statement_def steady_statement_error steady_rules)
next
  case MYSQL
  have "\<And>cur s1. steady s1 (snd (and_then (cur_execute drv cur sql) (\<lambda>rowCount.
     and_then (mysql_results drv cur rowCount) (\<lambda>results.
     and_then (commit_and_kill drv commit kill) (\<lambda>u. ret results))) s1))"
    by (intro steady_and_then) (simp_all add: steady_rules)
  from after_cursor [OF assms(2) this, of drv] MYSQL assms(1) show ?thesis
    by (simp add: run_statement_def mysql_try_def)
qed

lemma ensure_connection_dead:
  assumes "fst (status drv s) = Inr False"
  shows "ensure_connection drv s = connect drv (snd (status drv (snd (status drv s))))"
proof -
  obtain s1 where s1: "status drv s = (Inr False, s1)"
    using assms by (cases "status drv s") simp
  obtain s2 where s2: "status drv s1 = (Inr False, s2)"
    using status_twice [OF s1] by (cases "status drv s1") simp
  show ?thesis using s1 s2 by (simp add: ensure_connection_def and_then_def)
qed

lemma ensure_connection_alive:
  assumes "fst (status drv s) = Inr True"
  shows "fst (ensure_connection drv s) = Inr ()
         \<and> steady s (snd (ensure_connection drv s))"
proof -
  obtain s1 where s1: "status drv s = (Inr True, s1)"
    using assms by (cases "status drv s") simp
  obtain s2 where s2: "status drv s1 = (Inr True, s2)"
    using status_twice [OF s1] by (cases "status drv s1") simp
  have "ensure_connection drv s = (Inr (), s2)"
    using s1 s2 by (simp add: ensure_connection_def and_then_def ret_def)
  moreover have "steady s s2"
    using status_frame [OF s1] status_frame [OF s2] by (simp add: steady_def)
  ultimately show ?thesis by simp
qed

lemma connect_calls_driver:
  assumes "rdbms s = DBType_value bt"
  shows "trace (snd (connect drv s)) = trace s @ [EvConnect]
         \<and> rdbms (snd (connect drv s)) = rdbms s
         \<and> (\<forall>h w'. db_connect drv (world s) = (Inr h, w') \<longrightarrow>
               fst (connect drv s) = Inr () \<and> connection (snd (connect drv s)) = Some h)"
  using assms
  by (cases bt)
     (auto simp: connect_def assign_connection_def oracleConnection_def sqlServerConnection_def
        pgConnection_def mySqlConnection_def native_connection_def call_def py_print_def
        logging_error_def logging_exception_def split: prod.splits sum.splits)

section \<open>The claims\<close>

subsection \<open>C8: status is false, and does not throw, when nothing is alive\<close>

text \<open>
  C8. \<^verbatim>\<open>status()\<close> returns false whenever no connection object exists: the result is
  the same for every driver and the state is untouched, so no probe of the backend is
  consulted. It also returns false, and does not raise, whenever the probe of the backend
  reports that the connection is not alive: \<^verbatim>\<open>is_healthy()\<close> is false (Oracle), the
  connected flag is false or reading it raises \<^verbatim>\<open>InterfaceError\<close> (SQL Server), the
  closed flag is set (PostgreSQL), the open flag is not 1 (MySQL).
\<close>

theorem status_false_without_throwing:
  "(connection s = None \<longrightarrow> status drv s = (Inr False, s))
   \<and> (\<forall>h. connection s = Some h \<longrightarrow>
        (rdbms s = DBType_value ORACLE \<and> db_is_healthy drv h (world s) = Inr False)
        \<or> (rdbms s = DBType_value SQL_SERVER \<and>
            (db_connected drv h (world s) = Inr False
             \<or> (\<exists>err. db_connected drv h (world s) = Inl err \<and> cls err = InterfaceError)))
        \<or> (rdbms s = DBType_value POSTGRESQL \<and> db_closed drv h (world s) \<noteq> 0)
        \<or> (rdbms s = DBType_value MYSQL \<and> db_open drv h (world s) \<noteq> 1)
        \<longrightarrow> status drv s = (Inr False, s))"
  by (auto simp: status_def)

theorem status_false_without_throwing_witness:
  "status (update_driver SQL_SERVER) (fresh SQL_SERVER) = (Inr False, fresh SQL_SERVER)
   \<and> status (update_driver SQL_SERVER) (stale SQL_SERVER) = (Inr False, stale SQL_SERVER)"
  using status_false_without_throwing [of "fresh SQL_SERVER" "update_driver SQL_SERVER"]
    status_false_without_throwing [of "stale SQL_SERVER" "update_driver SQL_SERVER"]
  by (simp add: fresh_def stale_def update_driver_def)

subsection \<open>C6: a failure to connect is logged and swallowed\<close>




subsection \<open>C10: lastResult is the value returned\<close>

text \<open>
  C10. After every successful \<^verbatim>\<open>runSql\<close> call, \<^verbatim>\<open>lastResult\<close> is exactly the
  value returned: with \<^verbatim>\<open>one=True\<close> the first row of the normalized result (which is
  then not empty), with \<^verbatim>\<open>one=False\<close> the whole normalized result.
\<close>

theorem lastResult_is_returned:
  assumes "runSql drv sql one commit kill s = (Inr res, s')"
  shows "lastResult s' = Some res
         \<and> (\<exists>s1 results s2.
               ensure_connection drv s = (Inr (), s1)
               \<and> run_statement drv sql commit kill s1 = (Inr results, s2)
               \<and> s' = s2\<lparr>lastResult := Some res\<rparr>
               \<and> (if one then results \<noteq> [] \<and> res = Row (hd results) else res = Rows results))"
  using assms
  by (auto simp: runSql_def and_then_def reduce_and_store_def store_result_def raise_def
           split: prod.splits sum.splits if_splits list.splits)

theorem lastResult_is_returned_witness:
  "lastResult (snd (runSql select_driver ''SELECT id, name FROM t'' True False True (fresh ORACLE)))
     = Some (Row [(''id'', IntV 1), (''name'', StrV ''ann'')])"
proof -
  have h: "runSql select_driver ''SELECT id, name FROM t'' True False True (fresh ORACLE) =
             (Inr (Row [(''id'', IntV 1), (''name'', StrV ''ann'')]),
              snd (runSql select_driver ''SELECT id, name FROM t'' True False True (fresh ORACLE)))"
    by (simp add: run_defs example_defs)
  show ?thesis
    using lastResult_is_returned [OF h] by simp
qed

subsection \<open>C7: the first row of an empty result\<close>

text \<open>
  C7, as stated, fails. With \<^verbatim>\<open>one=True\<close> on an empty normalized result (an Oracle
  \<^verbatim>\<open>SELECT\<close> that matches no row) the error raised is the \<^verbatim>\<open>IndexError\<close> of the
  unguarded \<^verbatim>\<open>results[0]\<close>; the source has no \<^verbatim>\<open>EmptyResultError\<close>.
\<close>

theorem first_row_of_empty_result_counterexample:
  "fst (runSql empty_select_driver ''SELECT id, name FROM t WHERE 1 = 0'' True False False
          (connected ORACLE))
     = Inl (Exn IndexError ''list index out of range'' None)"
  by (simp add: run_defs example_defs)

text \<open>
  C7, amended. Calling \<^verbatim>\<open>runSql\<close> with \<^verbatim>\<open>one=True\<close> when the normalized result
  is empty raises \<^verbatim>\<open>IndexError\<close> (list index out of range), after the statement has
  run; nothing is stored in \<^verbatim>\<open>lastResult\<close>.
\<close>

theorem first_row_of_empty_result_index_error:
  assumes "ensure_connection drv s = (Inr (), s1)"
    and "run_statement drv sql commit kill s1 = (Inr [], s2)"
  shows "runSql drv sql True commit kill s =
           (Inl (Exn IndexError ''list index out of range'' None), s2)
         \<and> lastResult s2 = lastResult s"
proof -
  have "steady s1 (snd (run_statement drv sql commit kill s1))"
    by (simp add: steady_rules)
  with assms(2) ensure_connection_frame [OF assms(1)] have "lastResult s2 = lastResult s"
    by (simp add: steady_def)
  with assms show ?thesis
    by (simp add: runSql_def and_then_def reduce_and_store_def raise_def)
qed

theorem first_row_of_empty_result_index_error_witness:
  "runSql empty_select_driver ''SELECT id, name FROM t WHERE 1 = 0'' True False False
     (connected ORACLE) =
   (Inl (Exn IndexError ''list index out of range'' None),
    (connected ORACLE)\<lparr>trace :=
       [EvCursor 1, EvExecute 7 ''SELECT id, name FROM t WHERE 1 = 0'', EvFetchall 7]\<rparr>)"
proof -
  have h1: "ensure_connection empty_select_driver (connected ORACLE) = (Inr (), connected ORACLE)"
    by (simp add: run_defs example_defs)
  have h2: "run_statement empty_select_driver ''SELECT id, name FROM t WHERE 1 = 0'' False False
              (connected ORACLE) =
            (Inr [], (connected ORACLE)\<lparr>trace :=
               [EvCursor 1, EvExecute 7 ''SELECT id, name FROM t WHERE 1 = 0'', EvFetchall 7]\<rparr>)"
    by (simp add: run_defs example_defs)
  show ?thesis
    using first_row_of_empty_result_index_error [OF h1 h2] by simp
qed

subsection \<open>C5: errors of the statement\<close>

text \<open>
  C5, as stated, fails. The error that reaches the caller is a new \<^verbatim>\<open>DatabaseError\<close>
  whose message is the dispatcher's fixed text; the message of the backend's error is not
  in it.
\<close>

theorem statement_error_counterexample:
  "fst (runSql failing_driver ''SELECT * FROM missing'' False False True (connected ORACLE))
     = Inl (Exn DatabaseError
              ''Unable to execute SQL statement using Oracle connection reporting''
              (Some (Exn DatabaseError ''ORA-00942: table or view does not exist'' None)))
   \<and> ''Unable to execute SQL statement using Oracle connection reporting''
       \<noteq> ''ORA-00942: table or view does not exist''"
  by (simp add: run_defs example_defs)

text \<open>
  C5, amended. For every backend type, when \<^verbatim>\<open>cur.execute\<close> fails with a
  \<^verbatim>\<open>DatabaseError\<close> of the driver, \<^verbatim>\<open>runSql\<close> always raises: the native error is
  logged, and the error raised is a new \<^verbatim>\<open>DatabaseError\<close> with the message
  \<^verbatim>\<open>Unable to execute SQL statement using <backend> connection <name>\<close>. The native
  error is attached only as the context of the new error (it was being handled when the
  new one was raised).
\<close>

theorem statement_error_propagated:
  assumes "rdbms s = DBType_value bt"
    and "ensure_connection drv s = (Inr (), s1)"
    and "get_cursor drv s1 = (Inr cur, s2)"
    and "cur_execute drv cur sql s2 = (Inl err, s3)"
    and "isDatabaseError (cls err)"
  shows "fst (runSql drv sql one commit kill s) =
           Inl (Exn DatabaseError
                  (''Unable to execute SQL statement using '' @ backend_label bt
                     @ '' connection '' @ name s)
                  (Some err))
         \<and> out (snd (runSql drv sql one commit kill s)) = out s3 @ [''ERROR:root:'' @ msg err]"
  using runSql_execute_fails [OF assms] by (simp add: logging_error_def)

theorem statement_error_propagated_witness:
  "fst (runSql failing_driver ''SELECT * FROM missing'' False False True (connected ORACLE)) =
     Inl (Exn DatabaseError
            ''Unable to execute SQL statement using Oracle connection reporting''
            (Some (Exn DatabaseError ''ORA-00942: table or view does not exist'' None)))
   \<and> out (snd (runSql failing_driver ''SELECT * FROM missing'' False False True
                 (connected ORACLE)))
       = [''ERROR:root:ORA-00942: table or view does not exist'']"
proof -
  let ?s = "connected ORACLE"
  let ?s2 = "?s\<lparr>trace := [EvCursor 1]\<rparr>"
  let ?s3 = "?s\<lparr>trace := [EvCursor 1, EvExecute 7 ''SELECT * FROM missing'']\<rparr>"
  have h1: "rdbms ?s = DBType_value ORACLE"
    by (simp add: example_defs)
  have h2: "ensure_connection failing_driver ?s = (Inr (), ?s)"
    by (simp add: run_defs example_defs)
  have h3: "get_cursor failing_driver ?s = (Inr 7, ?s2)"
    by (simp add: run_defs example_defs)
  have h4: "cur_execute failing_driver 7 ''SELECT * FROM missing'' ?s2 =
              (Inl (Exn DatabaseError ''ORA-00942: table or view does not exist'' None), ?s3)"
    by (simp add: run_defs example_defs)
  have h5: "isDatabaseError (cls (Exn DatabaseError ''ORA-00942: table or view does not exist'' None))"
    by simp
  show ?thesis
    using statement_error_propagated [OF h1 h2 h3 h4 h5, of False False True]
    by (simp add: example_defs)
qed

subsection \<open>C1: statements that produce no rows\<close>

text \<open>
  C1, as stated, fails on PostgreSQL. \<^verbatim>\<open>CREATE TABLE ... AS SELECT\<close> produces no rows
  and affects three, but its status message begins with \<^verbatim>\<open>SELECT\<close> and its row count
  is positive, so the rows are fetched; the fetch raises and \<^verbatim>\<open>runSql\<close> raises
  instead of returning \<^verbatim>\<open>[{'Row(s) affected': 3}]\<close>.
\<close>

theorem rows_affected_counterexample:
  "db_description create_table_as_driver 7 True = None
   \<and> db_rowcount create_table_as_driver 7 True = 3
   \<and> fst (runSql create_table_as_driver ''CREATE TABLE u AS SELECT * FROM t'' False False True
          (connected POSTGRESQL))
     = Inl (Exn DatabaseError
              ''Unable to execute SQL statement using PostgreSQL connection reporting''
              (Some (Exn ProgrammingError ''no results to fetch'' None)))"
  by (simp add: run_defs example_defs)

text \<open>
  C1, amended. \<^verbatim>\<open>runSql\<close> returns exactly the one row
  \<^verbatim>\<open>{'Row(s) affected': K}\<close> (the row itself with \<^verbatim>\<open>one=True\<close>) when the statement
  has run, the commit and the disconnect asked for succeed, and the backend shows the
  signal the code reads as "no rows": on Oracle the cursor has no description, on SQL
  Server the fetch raises \<^verbatim>\<open>OperationalError\<close>, on PostgreSQL the status message does
  not begin with \<^verbatim>\<open>SELECT\<close> or the row count is not positive, on MySQL the fetch is
  empty. \<open>K\<close> is the cursor's row count, on MySQL the value \<^verbatim>\<open>cur.execute\<close> returned.
\<close>

theorem rows_affected_reported:
  assumes "rdbms s = DBType_value bt"
    and "ensure_connection drv s = (Inr (), s1)"
    and "get_cursor drv s1 = (Inr cur, s2)"
    and "cur_execute drv cur sql s2 = (Inr n, s3)"
    and "case bt of
           ORACLE \<Rightarrow>
             db_description drv cur (world s3) = None
             \<and> s4 = s3 \<and> K = db_rowcount drv cur (world s3)
         | SQL_SERVER \<Rightarrow>
             (\<exists>err. cur_fetchall_dict drv cur s3 = (Inl err, s4) \<and> cls err = OperationalError)
             \<and> K = db_rowcount drv cur (world s4)
         | POSTGRESQL \<Rightarrow>
             \<not> (take 6 (db_statusmessage drv cur (world s3)) = ''SELECT''
                \<and> 0 < db_rowcount drv cur (world s3))
             \<and> s4 = s3 \<and> K = db_rowcount drv cur (world s3)
         | MYSQL \<Rightarrow>
             cur_fetchall_dict drv cur s3 = (Inr [], s4) \<and> K = n"
    and "commit_and_kill drv commit kill s4 = (Inr (), s5)"
    and "res = (if one then Row [(''Row(s) affected'', IntV K)]
                else Rows [[(''Row(s) affected'', IntV K)]])"
  shows "runSql drv sql one commit kill s = (Inr res, s5\<lparr>lastResult := Some res\<rparr>)"
proof -
  have "(case bt of
            ORACLE \<Rightarrow> oracle_results drv cur s3
          | SQL_SERVER \<Rightarrow> sqlserver_results drv cur s3
          | POSTGRESQL \<Rightarrow> pg_results drv cur s3
          | MYSQL \<Rightarrow> mysql_results drv cur n s3) = (Inr (rows_affected K), s4)"
    using assms(5)
    by (cases bt)
       (auto simp: oracle_results_def sqlserver_results_def pg_results_def mysql_results_def
          ret_def and_then_def)
  from runSql_results [OF assms(1-4) this assms(6)] show ?thesis
    using assms(7)
    by (simp add: reduce_and_store_def store_result_def rows_affected_def)
qed

theorem rows_affected_reported_witness:
  "runSql (update_driver SQL_SERVER) ''UPDATE t SET x = 1'' False True True (connected SQL_SERVER) =
     (Inr (Rows [[(''Row(s) affected'', IntV 3)]]),
      (connected SQL_SERVER)\<lparr>
         lastResult := Some (Rows [[(''Row(s) affected'', IntV 3)]]),
         trace := [EvCursor 1, EvExecute 7 ''UPDATE t SET x = 1'', EvFetchall 7, EvCommit 1,
                   EvClose 1],
         world := False\<rparr>)"
proof -
  let ?d = "update_driver SQL_SERVER"
  let ?s = "connected SQL_SERVER"
  let ?s2 = "?s\<lparr>trace := [EvCursor 1]\<rparr>"
  let ?s3 = "?s\<lparr>trace := [EvCursor 1, EvExecute 7 ''UPDATE t SET x = 1'']\<rparr>"
  let ?s4 = "?s\<lparr>trace := [EvCursor 1, EvExecute 7 ''UPDATE t SET x = 1'', EvFetchall 7]\<rparr>"
  let ?s5 = "?s\<lparr>trace := [EvCursor 1, EvExecute 7 ''UPDATE t SET x = 1'', EvFetchall 7,
                           EvCommit 1, EvClose 1], world := False\<rparr>"
  have h1: "rdbms ?s = DBType_value SQL_SERVER"
    by (simp add: example_defs)
  have h2: "ensure_connection ?d ?s = (Inr (), ?s)"
    by (simp add: run_defs example_defs)
  have h3: "get_cursor ?d ?s = (Inr 7, ?s2)"
    by (simp add: run_defs example_defs)
  have h4: "cur_execute ?d 7 ''UPDATE t SET x = 1'' ?s2 = (Inr 3, ?s3)"
    by (simp add: run_defs example_defs)
  have h5: "case SQL_SERVER of
           ORACLE \<Rightarrow>
             db_description ?d 7 (world ?s3) = None
             \<and> ?s4 = ?s3 \<and> 3 = db_rowcount ?d 7 (world ?s3)
         | SQL_SERVER \<Rightarrow>
             (\<exists>err. cur_fetchall_dict ?d 7 ?s3 = (Inl err, ?s4) \<and> cls err = OperationalError)
             \<and> 3 = db_rowcount ?d 7 (world ?s4)
         | POSTGRESQL \<Rightarrow>
             \<not> (take 6 (db_statusmessage ?d 7 (world ?s3)) = ''SELECT''
                \<and> 0 < db_rowcount ?d 7 (world ?s3))
             \<and> ?s4 = ?s3 \<and> 3 = db_rowcount ?d 7 (world ?s3)
         | MYSQL \<Rightarrow>
             cur_fetchall_dict ?d 7 ?s3 = (Inr [], ?s4) \<and> 3 = 3"
    by (simp add: run_defs example_defs)
  have h6: "commit_and_kill ?d True True ?s4 = (Inr (), ?s5)"
    by (simp add: run_defs example_defs)
  show ?thesis
    using rows_affected_reported [OF h1 h2 h3 h4 h5 h6 refl, of False]
    by (simp add: example_defs)
qed

subsection \<open>C2: PostgreSQL reads the status message\<close>

text \<open>
  C2. On PostgreSQL, rows are fetched and zipped into mappings only when the status
  message begins with \<^verbatim>\<open>SELECT\<close> and the row count is positive. In every other case
  the state passes from \<^verbatim>\<open>cur.execute\<close> to the commit without a fetch and the result is
  \<^verbatim>\<open>[{'Row(s) affected': rowcount}]\<close>; so a \<^verbatim>\<open>SELECT\<close> with zero rows returns
  \<^verbatim>\<open>[{'Row(s) affected': 0}]\<close>, not the empty list.
\<close>

theorem pg_rows_only_for_nonempty_select:
  assumes "rdbms s = DBType_value POSTGRESQL"
    and "ensure_connection drv s = (Inr (), s1)"
    and "get_cursor drv s1 = (Inr cur, s2)"
    and "cur_execute drv cur sql s2 = (Inr n, s3)"
  shows "(\<not> (take 6 (db_statusmessage drv cur (world s3)) = ''SELECT''
              \<and> 0 < db_rowcount drv cur (world s3)) \<longrightarrow>
          commit_and_kill drv commit kill s3 = (Inr (), s5) \<longrightarrow>
          runSql drv sql False commit kill s =
            (Inr (Rows [[(''Row(s) affected'', IntV (db_rowcount drv cur (world s3)))]]),
             s5\<lparr>lastResult :=
                  Some (Rows [[(''Row(s) affected'', IntV (db_rowcount drv cur (world s3)))]])\<rparr>))
       \<and> (take 6 (db_statusmessage drv cur (world s3)) = ''SELECT''
              \<and> 0 < db_rowcount drv cur (world s3) \<longrightarrow>
          cur_fetchall_dict drv cur s3 = (Inr rawResults, s4) \<longrightarrow>
          commit_and_kill drv commit kill s4 = (Inr (), s5) \<longrightarrow>
          runSql drv sql False commit kill s =
            (Inr (Rows (map (\<lambda>r. py_dict (zip (keys r) (vals r))) rawResults)),
             s5\<lparr>lastResult :=
                  Some (Rows (map (\<lambda>r. py_dict (zip (keys r) (vals r))) rawResults))\<rparr>))"
proof (intro conjI impI)
  assume c: "\<not> (take 6 (db_statusmessage drv cur (world s3)) = ''SELECT''
              \<and> 0 < db_rowcount drv cur (world s3))"
    and k: "commit_and_kill drv commit kill s3 = (Inr (), s5)"
  have "(case POSTGRESQL of
            ORACLE \<Rightarrow> oracle_results drv cur s3
          | SQL_SERVER \<Rightarrow> sqlserver_results drv cur s3
          | POSTGRESQL \<Rightarrow> pg_results drv cur s3
          | MYSQL \<Rightarrow> mysql_results drv cur n s3)
        = (Inr (rows_affected (db_rowcount drv cur (world s3))), s3)"
    using c by (auto simp: pg_results_def ret_def)
  from runSql_results [OF assms this k]
  show "runSql drv sql False commit kill s =
            (Inr (Rows [[(''Row(s) affected'', IntV (db_rowcount drv cur (world s3)))]]),
             s5\<lparr>lastResult :=
                  Some (Rows [[(''Row(s) affected'', IntV (db_rowcount drv cur (world s3)))]])\<rparr>)"
    by (simp add: reduce_and_store_def store_result_def rows_affected_def)
next
  assume c: "take 6 (db_statusmessage drv cur (world s3)) = ''SELECT''
              \<and> 0 < db_rowcount drv cur (world s3)"
    and f: "cur_fetchall_dict drv cur s3 = (Inr rawResults, s4)"
    and k: "commit_and_kill drv commit kill s4 = (Inr (), s5)"
  have "(case POSTGRESQL of
            ORACLE \<Rightarrow> oracle_results drv cur s3
          | SQL_SERVER \<Rightarrow> sqlserver_results drv cur s3
          | POSTGRESQL \<Rightarrow> pg_results drv cur s3
          | MYSQL \<Rightarrow> mysql_results drv cur n s3)
        = (Inr (map (\<lambda>r. py_dict (zip (keys r) (vals r))) rawResults), s4)"
    using c f by (simp add: pg_results_def ret_def and_then_def pg_append_rows_eq)
  from runSql_results [OF assms this k]
  show "runSql drv sql False commit kill s =
            (Inr (Rows (map (\<lambda>r. py_dict (zip (keys r) (vals r))) rawResults)),
             s5\<lparr>lastResult :=
                  Some (Rows (map (\<lambda>r. py_dict (zip (keys r) (vals r))) rawResults))\<rparr>)"
    by (simp add: reduce_and_store_def store_result_def)
qed

theorem pg_rows_only_for_nonempty_select_witness:
  "runSql empty_select_driver ''SELECT id, name FROM t WHERE 1 = 0'' False False True
     (connected POSTGRESQL) =
     (Inr (Rows [[(''Row(s) affected'', IntV 0)]]),
      (connected POSTGRESQL)\<lparr>
         lastResult := Some (Rows [[(''Row(s) affected'', IntV 0)]]),
         trace := [EvCursor 1, EvExecute 7 ''SELECT id, name FROM t WHERE 1 = 0'', EvClose 1],
         world := False\<rparr>)"
proof -
  let ?d = "empty_select_driver"
  let ?q = "''SELECT id, name FROM t WHERE 1 = 0''"
  let ?s = "connected POSTGRESQL"
  let ?s2 = "?s\<lparr>trace := [EvCursor 1]\<rparr>"
  let ?s3 = "?s\<lparr>trace := [EvCursor 1, EvExecute 7 ?q]\<rparr>"
  let ?s5 = "?s\<lparr>trace := [EvCursor 1, EvExecute 7 ?q, EvClose 1], world := False\<rparr>"
  have h1: "rdbms ?s = DBType_value POSTGRESQL"
    by (simp add: example_defs)
  have h2: "ensure_connection ?d ?s = (Inr (), ?s)"
    by (simp add: run_defs example_defs)
  have h3: "get_cursor ?d ?s = (Inr 7, ?s2)"
    by (simp add: run_defs example_defs)
  have h4: "cur_execute ?d 7 ?q ?s2 = (Inr 0, ?s3)"
    by (simp add: run_defs example_defs)
  have h5: "\<not> (take 6 (db_statusmessage ?d 7 (world ?s3)) = ''SELECT''
              \<and> 0 < db_rowcount ?d 7 (world ?s3))"
    by (simp add: example_defs)
  have h6: "commit_and_kill ?d False True ?s3 = (Inr (), ?s5)"
    by (simp add: run_defs example_defs)
  have h7: "db_rowcount ?d 7 (world ?s3) = 0"
    by (simp add: example_defs)
  show ?thesis
    using pg_rows_only_for_nonempty_select [OF h1 h2 h3 h4, of False True ?s5] h5 h6 h7
    by (simp add: example_defs)
qed

subsection \<open>C3: statements that produce rows\<close>

text \<open>
  C3, as stated, fails in two ways. A statement with the columns \<^verbatim>\<open>id\<close> and
  \<^verbatim>\<open>name\<close> that yields no row returns, on PostgreSQL (and on MySQL), one mapping whose
  key is not a column name. And on Oracle a statement with two columns of the same name
  returns mappings with one key, holding the value of the last of them.
\<close>

theorem rows_returned_counterexample:
  "db_description empty_select_driver 7 True = Some [''id'', ''name'']
   \<and> db_fetchall_dict empty_select_driver 7 True = (Inr [], True)
   \<and> fst (runSql empty_select_driver ''SELECT id, name FROM t WHERE 1 = 0'' False False True
          (connected POSTGRESQL))
     = Inr (Rows [[(''Row(s) affected'', IntV 0)]])
   \<and> db_description duplicate_columns_driver 7 True = Some [''id'', ''id'']
   \<and> db_fetchall duplicate_columns_driver 7 True = (Inr [[IntV 1, IntV 2]], True)
   \<and> fst (runSql duplicate_columns_driver ''SELECT a.id, b.id FROM a, b'' False False True
          (connected ORACLE))
     = Inr (Rows [[(''id'', IntV 2)]])"
  by (simp add: run_defs example_defs)

text \<open>
  C3, amended. When the statement has run and the commit and the disconnect asked for
  succeed, \<^verbatim>\<open>runSql\<close> returns one mapping for each row the driver's
  \<^verbatim>\<open>fetchall()\<close> returned, in the order fetched:
  \<^item> on Oracle, for a cursor whose column names are pairwise distinct, row \<open>i\<close> is
    \<^verbatim>\<open>dict(zip(columns, tuple))\<close> of the \<open>i\<close>-th tuple fetched: its keys are exactly
    the column names in cursor order and its values are the tuple;
  \<^item> on SQL Server the result is the list of dictionary rows fetched, unchanged;
  \<^item> on PostgreSQL the same, when the status message begins with \<^verbatim>\<open>SELECT\<close> and the
    row count is positive;
  \<^item> on MySQL the same, when at least one row was fetched.
  On the last three backends the keys of a mapping are those of the driver's dictionary
  row (a dictionary has each key once).
\<close>

theorem rows_returned_in_order:
  assumes "rdbms s = DBType_value bt"
    and "ensure_connection drv s = (Inr (), s1)"
    and "connection s1 = Some h"
    and "db_cursor drv h (world s1) = (Inr cur, w2)"
    and "db_execute drv cur sql w2 = (Inr n, w3)"
    and "case bt of
           ORACLE \<Rightarrow>
             db_description drv cur w3 = Some columns \<and> distinct columns
             \<and> db_fetchall drv cur w3 = (Inr tuples, w4)
             \<and> (\<forall>t\<in>set tuples. length t = length columns)
         | SQL_SERVER \<Rightarrow>
             db_fetchall_dict drv cur w3 = (Inr fetched, w4)
         | POSTGRESQL \<Rightarrow>
             take 6 (db_statusmessage drv cur w3) = ''SELECT'' \<and> 0 < db_rowcount drv cur w3
             \<and> db_fetchall_dict drv cur w3 = (Inr fetched, w4)
             \<and> (\<forall>r\<in>set fetched. distinct (keys r))
         | MYSQL \<Rightarrow>
             db_fetchall_dict drv cur w3 = (Inr fetched, w4) \<and> fetched \<noteq> []"
    and "commit_and_kill drv commit kill
           (s1\<lparr>trace := trace s1 @ [EvCursor h, EvExecute cur sql, EvFetchall cur],
               world := w4\<rparr>) = (Inr (), s5)"
    and "rows = (case bt of ORACLE \<Rightarrow> map (zip columns) tuples | _ \<Rightarrow> fetched)"
  shows "runSql drv sql False commit kill s =
           (Inr (Rows rows), s5\<lparr>lastResult := Some (Rows rows)\<rparr>)
         \<and> (bt = ORACLE \<longrightarrow>
              length rows = length tuples
              \<and> (\<forall>i<length tuples. keys (rows ! i) = columns \<and> vals (rows ! i) = tuples ! i))"
proof -
  let ?s2 = "s1\<lparr>trace := trace s1 @ [EvCursor h], world := w2\<rparr>"
  let ?s3 = "s1\<lparr>trace := trace s1 @ [EvCursor h, EvExecute cur sql], world := w3\<rparr>"
  let ?s4 = "s1\<lparr>trace := trace s1 @ [EvCursor h, EvExecute cur sql, EvFetchall cur],
                world := w4\<rparr>"
  have g: "get_cursor drv s1 = (Inr cur, ?s2)"
    using assms(3,4) by (simp add: get_cursor_def and_then_def the_connection_def call_def)
  have e: "cur_execute drv cur sql ?s2 = (Inr n, ?s3)"
    using assms(5) by (simp add: cur_execute_def call_def)
  have res: "(case bt of
            ORACLE \<Rightarrow> oracle_results drv cur ?s3
          | SQL_SERVER \<Rightarrow> sqlserver_results drv cur ?s3
          | POSTGRESQL \<Rightarrow> pg_results drv cur ?s3
          | MYSQL \<Rightarrow> mysql_results drv cur n ?s3) = (Inr rows, ?s4)"
  proof (cases bt)
    case ORACLE
    with assms(6) have d: "db_description drv cur w3 = Some columns" "distinct columns"
      and f: "db_fetchall drv cur w3 = (Inr tuples, w4)"
      and l: "\<forall>t\<in>set tuples. length t = length columns"
      by simp_all
    have "map (\<lambda>args. py_dict (zip columns args)) tuples = map (zip columns) tuples"
      using l d(2) by (simp add: py_dict_zip_columns)
    then show ?thesis
      using ORACLE d(1) f assms(8)
      by (simp add: oracle_results_def cur_fetchall_def call_def and_then_def ret_def)
  next
    case SQL_SERVER
    then show ?thesis
      using assms(6,8) by (simp add: sqlserver_results_def cur_fetchall_dict_def call_def)
  next
    case POSTGRESQL
    with assms(6) have "\<forall>r\<in>set fetched. distinct (keys r)" by simp
    then have "pg_append_rows [] fetched = fetched" by (rule pg_append_rows_id)
    then show ?thesis
      using POSTGRESQL assms(6,8)
      by (simp add: pg_results_def cur_fetchall_dict_def call_def and_then_def ret_def)
  next
    case MYSQL
    then show ?thesis
      using assms(6,8)
      by (simp add: mysql_results_def cur_fetchall_dict_def call_def and_then_def ret_def)
  qed
  have run: "runSql drv sql False commit kill s =
               (Inr (Rows rows), s5\<lparr>lastResult := Some (Rows rows)\<rparr>)"
    using runSql_results [OF assms(1,2) g e res assms(7)]
    by (simp add: reduce_and_store_def store_result_def)
  have shape: "length rows = length tuples
      \<and> (\<forall>i<length tuples. keys (rows ! i) = columns \<and> vals (rows ! i) = tuples ! i)"
    if "bt = ORACLE"
  proof -
    from that assms(6,8) have r: "rows = map (zip columns) tuples"
      and l: "\<forall>t\<in>set tuples. length t = length columns"
      by simp_all
    have "keys (rows ! i) = columns \<and> vals (rows ! i) = tuples ! i" if "i < length tuples" for i
    proof -
      from that l have "length (tuples ! i) = length columns" by simp
      with that r show ?thesis by (simp add: keys_def vals_def)
    qed
    with r show ?thesis by simp
  qed
  from run shape show ?thesis by blast
qed

theorem rows_returned_in_order_witness:
  "fst (runSql select_driver ''SELECT id, name FROM t'' False False True (connected ORACLE))
     = Inr (Rows [[(''id'', IntV 1), (''name'', StrV ''ann'')],
                  [(''id'', IntV 2), (''name'', StrV ''bob'')]])
   \<and> fst (runSql select_driver ''SELECT id, name FROM t'' False False True (connected SQL_SERVER))
     = Inr (Rows [[(''id'', IntV 1), (''name'', StrV ''ann'')],
                  [(''id'', IntV 2), (''name'', StrV ''bob'')]])
   \<and> fst (runSql select_driver ''SELECT id, name FROM t'' False False True (connected POSTGRESQL))
     = Inr (Rows [[(''id'', IntV 1), (''name'', StrV ''ann'')],
                  [(''id'', IntV 2), (''name'', StrV ''bob'')]])
   \<and> fst (runSql select_driver ''SELECT id, name FROM t'' False False True (connected MYSQL))
     = Inr (Rows [[(''id'', IntV 1), (''name'', StrV ''ann'')],
                  [(''id'', IntV 2), (''name'', StrV ''bob'')]])"
proof -
  let ?d = "select_driver"
  let ?q = "''SELECT id, name FROM t''"
  let ?columns = "[''id'', ''name'']"
  let ?tuples = "[[IntV 1, StrV ''ann''], [IntV 2, StrV ''bob'']]"
  let ?fetched = "[[(''id'', IntV 1), (''name'', StrV ''ann'')],
                   [(''id'', IntV 2), (''name'', StrV ''bob'')]]"
  have h1: "rdbms (connected bt) = DBType_value bt" for bt
    by (simp add: example_defs)
  have h2: "ensure_connection ?d (connected bt) = (Inr (), connected bt)" for bt
    by (cases bt) (simp_all add: run_defs example_defs)
  have h3: "connection (connected bt) = Some 1" for bt
    by (simp add: example_defs)
  have h4: "db_cursor ?d 1 (world (connected bt)) = (Inr 7, True)" for bt
    by (simp add: example_defs)
  have h5: "db_execute ?d 7 ?q True = (Inr 2, True)"
    by (simp add: example_defs)
  have h6: "case bt of
           ORACLE \<Rightarrow>
             db_description ?d 7 True = Some ?columns \<and> distinct ?columns
             \<and> db_fetchall ?d 7 True = (Inr ?tuples, True)
             \<and> (\<forall>t\<in>set ?tuples. length t = length ?columns)
         | SQL_SERVER \<Rightarrow>
             db_fetchall_dict ?d 7 True = (Inr ?fetched, True)
         | POSTGRESQL \<Rightarrow>
             take 6 (db_statusmessage ?d 7 True) = ''SELECT'' \<and> 0 < db_rowcount ?d 7 True
             \<and> db_fetchall_dict ?d 7 True = (Inr ?fetched, True)
             \<and> (\<forall>r\<in>set ?fetched. distinct (keys r))
         | MYSQL \<Rightarrow>
             db_fetchall_dict ?d 7 True = (Inr ?fetched, True) \<and> ?fetched \<noteq> []" for bt
    by (cases bt) (simp_all add: example_defs keys_def)
  have h7: "commit_and_kill ?d False True
           ((connected bt)\<lparr>trace := trace (connected bt) @ [EvCursor 1, EvExecute 7 ?q, EvFetchall 7],
               world := True\<rparr>) =
           (Inr (), (connected bt)\<lparr>trace := [EvCursor 1, EvExecute 7 ?q, EvFetchall 7, EvClose 1],
               world := False\<rparr>)" for bt
    by (cases bt) (simp_all add: run_defs example_defs)
  have run: "fst (runSql ?d ?q False False True (connected bt)) =
               Inr (Rows (case bt of ORACLE \<Rightarrow> map (zip ?columns) ?tuples | _ \<Rightarrow> ?fetched))"
    for bt
    using rows_returned_in_order [OF h1 h2 h3 h4 h5 h6 h7 refl, of bt, THEN conjunct1]
    by simp
  from run [of ORACLE] run [of SQL_SERVER] run [of POSTGRESQL] run [of MYSQL]
  show ?thesis by simp
qed

subsection \<open>C4: closing the connection after the statement\<close>

text \<open>
  C4, as stated, fails on the error path. The connection is open before the call, the
  statement raises, and \<^verbatim>\<open>status()\<close> is still true afterwards: the handlers of
  \<^verbatim>\<open>runSql\<close> raise without calling \<^verbatim>\<open>disconnect()\<close>.
\<close>

theorem kill_disconnects_counterexample:
  "fst (status failing_driver (connected ORACLE)) = Inr True
   \<and> fst (status failing_driver
          (snd (runSql failing_driver ''SELECT * FROM missing'' False False True
                  (connected ORACLE))))
     = Inr True"
  by (simp add: run_defs example_defs)

text \<open>
  C4, amended. After a \<^verbatim>\<open>runSql\<close> call with \<^verbatim>\<open>kill=True\<close> that completes
  normally, \<^verbatim>\<open>status()\<close> is false, whether or not the dispatcher was connected before,
  for every driver that meets \<open>close_releases\<close>: a connection that was alive is not
  alive once its \<^verbatim>\<open>close()\<close> has returned or has failed with an error that
  \<^verbatim>\<open>disconnect()\<close> swallows. When
  \<^verbatim>\<open>cur.execute\<close> raises a \<^verbatim>\<open>DatabaseError\<close>, \<^verbatim>\<open>disconnect()\<close> is not
  called: the state is the one the failing call left, with the log line added, and
  \<^verbatim>\<open>status()\<close> answers as it did right after the failure.
\<close>

theorem kill_disconnects_after_completion:
  "(runSql drv sql one commit True s = (Inr res, s') \<longrightarrow> close_releases drv (rdbms s) \<longrightarrow>
      fst (status drv s') = Inr False)
   \<and> (ensure_connection drv s = (Inr (), s1) \<longrightarrow> rdbms s = DBType_value bt \<longrightarrow>
      get_cursor drv s1 = (Inr cur, s2) \<longrightarrow> cur_execute drv cur sql s2 = (Inl err, s3) \<longrightarrow>
      isDatabaseError (cls err) \<longrightarrow>
      snd (runSql drv sql one commit True s) = logging_error err s3
      \<and> fst (status drv (snd (runSql drv sql one commit True s))) = fst (status drv s3))"
proof -
  have completed: "fst (status drv s') = Inr False"
    if run: "runSql drv sql one commit True s = (Inr res, s')"
      and rel: "close_releases drv (rdbms s)"
  proof -
    from run obtain s1' results s2' where e: "ensure_connection drv s = (Inr (), s1')"
      and r: "run_statement drv sql commit True s1' = (Inr results, s2')"
      and s': "s' = s2'\<lparr>lastResult := Some res\<rparr>"
      by (auto simp: runSql_def and_then_def reduce_and_store_def store_result_def raise_def
               split: prod.splits sum.splits if_splits list.splits)
    from ensure_connection_known [OF e] obtain bt' where "rdbms s = DBType_value bt'" ..
    with ensure_connection_frame [OF e] rel
    have "close_releases drv (rdbms s1')" "rdbms s1' = DBType_value bt'" by simp_all
    from run_statement_releases [OF this r] have "fst (status drv s2') = Inr False" .
    moreover have "fst (status drv s') = fst (status drv s2')"
      unfolding s' by (rule status_cong) simp_all
    ultimately show ?thesis by simp
  qed
  have failed: "snd (runSql drv sql one commit True s) = logging_error err s3
      \<and> fst (status drv (snd (runSql drv sql one commit True s))) = fst (status drv s3)"
    if "ensure_connection drv s = (Inr (), s1)" "rdbms s = DBType_value bt"
      "get_cursor drv s1 = (Inr cur, s2)" "cur_execute drv cur sql s2 = (Inl err, s3)"
      "isDatabaseError (cls err)"
  proof -
    from runSql_execute_fails [OF that(2,1,3,4,5)]
    have fin: "snd (runSql drv sql one commit True s) = logging_error err s3" by simp
    have "fst (status drv (logging_error err s3)) = fst (status drv s3)"
      by (rule status_cong) (simp_all add: logging_error_def)
    with fin show ?thesis by simp
  qed
  from completed failed show ?thesis by blast
qed

theorem kill_disconnects_after_completion_witness:
  "fst (status strict_close_driver
          (snd (runSql strict_close_driver ''SELECT id, name FROM t'' False False True
                  (connected ORACLE))))
     = Inr False
   \<and> fst (status failing_driver
          (snd (runSql failing_driver ''SELECT * FROM missing'' False False True
                  (connected ORACLE))))
     = Inr True"
proof -
  let ?s = "connected ORACLE"
  let ?q = "''SELECT * FROM missing''"
  let ?s2 = "?s\<lparr>trace := [EvCursor 1]\<rparr>"
  let ?s3 = "?s\<lparr>trace := [EvCursor 1, EvExecute 7 ?q]\<rparr>"
  let ?err = "Exn DatabaseError ''ORA-00942: table or view does not exist'' None"
  have a1: "runSql strict_close_driver ''SELECT id, name FROM t'' False False True ?s =
              (Inr (Rows [[(''id'', IntV 1), (''name'', StrV ''ann'')],
                          [(''id'', IntV 2), (''name'', StrV ''bob'')]]),
               snd (runSql strict_close_driver ''SELECT id, name FROM t'' False False True ?s))"
    by (simp add: run_defs example_defs)
  have a2: "close_releases strict_close_driver (rdbms ?s)"
    by (auto simp: close_releases_def status_def example_defs)
  have b1: "ensure_connection failing_driver ?s = (Inr (), ?s)"
    by (simp add: run_defs example_defs)
  have b2: "rdbms ?s = DBType_value ORACLE"
    by (simp add: example_defs)
  have b3: "get_cursor failing_driver ?s = (Inr 7, ?s2)"
    by (simp add: run_defs example_defs)
  have b4: "cur_execute failing_driver 7 ?q ?s2 = (Inl ?err, ?s3)"
    by (simp add: run_defs example_defs)
  have b5: "isDatabaseError (cls ?err)"
    by simp
  have b6: "fst (status failing_driver ?s3) = Inr True"
    by (simp add: run_defs example_defs)
  have completed: "fst (status strict_close_driver
          (snd (runSql strict_close_driver ''SELECT id, name FROM t'' False False True ?s))) = Inr False"
    using kill_disconnects_after_completion [THEN conjunct1, rule_format, OF a1 a2] .
  have failed: "fst (status failing_driver
          (snd (runSql failing_driver ?q False False True ?s))) = fst (status failing_driver ?s3)"
    using kill_disconnects_after_completion
      [THEN conjunct2, rule_format, OF b1 b2 b3 b4 b5, THEN conjunct2] .
  from completed failed b6 show ?thesis by simp
qed

subsection \<open>C9: reconnecting before the statement\<close>

text \<open>
  C9. When \<^verbatim>\<open>status()\<close> is false, the first driver call of \<^verbatim>\<open>runSql\<close> is the
  connect call of the backend, made by \<^verbatim>\<open>connect()\<close>; when it returns a connection,
  the next call asks that connection for the cursor of the statement. When
  \<^verbatim>\<open>status()\<close> is true, \<^verbatim>\<open>runSql\<close> makes no connect call at all. (For a
  backend outside the four types \<^verbatim>\<open>status()\<close> is always false, and the
  \<^verbatim>\<open>ValueError\<close> of \<^verbatim>\<open>connect()\<close> ends the call.)
\<close>

theorem runSql_reconnects_when_not_alive:
  "(fst (status drv s) = Inr False \<longrightarrow> rdbms s = DBType_value bt \<longrightarrow>
      take 1 (new_calls s (snd (runSql drv sql one commit kill s))) = [EvConnect]
      \<and> (\<forall>h w'. db_connect drv (world s) = (Inr h, w') \<longrightarrow>
            take 2 (new_calls s (snd (runSql drv sql one commit kill s)))
              = [EvConnect, EvCursor h]))
   \<and> (fst (status drv s) = Inr True \<longrightarrow>
      EvConnect \<notin> set (new_calls s (snd (runSql drv sql one commit kill s))))
   \<and> ((\<forall>b. rdbms s \<noteq> DBType_value b) \<longrightarrow>
      fst (runSql drv sql one commit kill s) =
        Inl (Exn ValueError
               (''Unknown database type '' @ rdbms s @ '' - cannot establish a connection!'')
               None))"
proof (intro conjI impI allI)
  assume "\<forall>b. rdbms s \<noteq> DBType_value b"
  then have u: "rdbms s \<noteq> DBType_value ORACLE" "rdbms s \<noteq> DBType_value SQL_SERVER"
    "rdbms s \<noteq> DBType_value POSTGRESQL" "rdbms s \<noteq> DBType_value MYSQL"
    by blast+
  then have "status drv s = (Inr False, s)"
    by (simp add: status_def split: option.splits)
  with u show "fst (runSql drv sql one commit kill s) =
        Inl (Exn ValueError
               (''Unknown database type '' @ rdbms s @ '' - cannot establish a connection!'')
               None)"
    by (simp add: runSql_def ensure_connection_def and_then_def connect_def raise_def)
next
  assume dead: "fst (status drv s) = Inr False" and bt: "rdbms s = DBType_value bt"
  let ?s2 = "snd (status drv (snd (status drv s)))"
  have fr: "trace ?s2 = trace s" "rdbms ?s2 = rdbms s" "world ?s2 = world s"
    using status_frame [of drv s "fst (status drv s)" "snd (status drv s)"]
      status_frame [of drv "snd (status drv s)" "fst (status drv (snd (status drv s)))" ?s2]
    by simp_all
  obtain r s3 where c: "connect drv ?s2 = (r, s3)" by (cases "connect drv ?s2")
  from connect_calls_driver [of ?s2 bt drv] fr bt c
  have t3: "trace s3 = trace s @ [EvConnect]" and r3: "rdbms s3 = DBType_value bt"
    and h3: "\<And>h w'. db_connect drv (world s) = (Inr h, w') \<Longrightarrow>
               r = Inr () \<and> connection s3 = Some h"
    by auto
  have run: "runSql drv sql one commit kill s =
      (case r of Inl e \<Rightarrow> (Inl e, s3)
       | Inr u \<Rightarrow> and_then (run_statement drv sql commit kill) (reduce_and_store one) s3)"
    using ensure_connection_dead [OF dead] c
    by (simp add: runSql_def and_then_def split: sum.splits)
  have "\<exists>evs. trace (snd (runSql drv sql one commit kill s)) = trace s @ EvConnect # evs"
  proof (cases r)
    case (Inl e)
    with run t3 show ?thesis by simp
  next
    case (Inr u)
    with run statement_phase_extends [of drv sql commit kill one s3] t3 show ?thesis by auto
  qed
  then show "take 1 (new_calls s (snd (runSql drv sql one commit kill s))) = [EvConnect]"
    by auto
  fix h w'
  assume ok: "db_connect drv (world s) = (Inr h, w')"
  from h3 [OF ok] have r: "r = Inr ()" and conn: "connection s3 = Some h" by simp_all
  obtain q s4 where q: "run_statement drv sql commit kill s3 = (q, s4)"
    by (cases "run_statement drv sql commit kill s3")
  from run_statement_first_call [OF r3 conn, of drv sql commit kill] q
  obtain evs where "trace s4 = trace s3 @ EvCursor h # evs" by auto
  with q have "trace (snd (and_then (run_statement drv sql commit kill) (reduce_and_store one) s3))
                = trace s @ EvConnect # EvCursor h # evs"
    using t3 by (cases q) (simp_all add: and_then_def)
  with run r
  show "take 2 (new_calls s (snd (runSql drv sql one commit kill s))) = [EvConnect, EvCursor h]"
    by simp
next
  assume alive: "fst (status drv s) = Inr True"
  obtain s1 where e: "ensure_connection drv s = (Inr (), s1)" and st: "steady s s1"
    using ensure_connection_alive [OF alive] by (cases "ensure_connection drv s") simp
  from st obtain evs1 where e1: "trace s1 = trace s @ evs1" "EvConnect \<notin> set evs1"
    by (auto simp: steady_def)
  from statement_phase_extends [of drv sql commit kill one s1]
  obtain evs2 where "trace (snd (and_then (run_statement drv sql commit kill)
      (reduce_and_store one) s1)) = trace s1 @ evs2" "EvConnect \<notin> set evs2"
    by blast
  with e e1 have "trace (snd (runSql drv sql one commit kill s)) = trace s @ (evs1 @ evs2)"
    "EvConnect \<notin> set (evs1 @ evs2)"
    by (simp_all add: runSql_def and_then_def)
  then show "EvConnect \<notin> set (new_calls s (snd (runSql drv sql one commit kill s)))"
    using new_calls_append by metis
qed

theorem runSql_reconnects_when_not_alive_witness:
  "take 2 (new_calls (stale ORACLE)
             (snd (runSql (update_driver ORACLE) ''UPDATE t SET x = 1'' False False True
                     (stale ORACLE))))
     = [EvConnect, EvCursor 1]
   \<and> EvConnect \<notin> set (new_calls (connected ORACLE)
             (snd (runSql (update_driver ORACLE) ''UPDATE t SET x = 1'' False False True
                     (connected ORACLE))))"
proof -
  let ?d = "update_driver ORACLE"
  let ?q = "''UPDATE t SET x = 1''"
  have h1: "fst (status ?d (stale ORACLE)) = Inr False"
    by (simp add: run_defs example_defs)
  have h2: "rdbms (stale ORACLE) = DBType_value ORACLE"
    by (simp add: example_defs)
  have h3: "db_connect ?d (world (stale ORACLE)) = (Inr 1, True)"
    by (simp add: example_defs)
  have h4: "fst (status ?d (connected ORACLE)) = Inr True"
    by (simp add: run_defs example_defs)
  show ?thesis
    using runSql_reconnects_when_not_alive [of ?d "stale ORACLE" ORACLE ?q False False True]
      runSql_reconnects_when_not_alive [of ?d "connected ORACLE" ORACLE ?q False False True]
      h1 h2 h3 h4
    by blast
qed

end
